theory Spec2Isabelle
  imports Complex_Main "HOL-Library.Sublist" "HOL-Library.Multiset" "HOL-Library.Extended_Nat"
begin

section \<open>Data model\<close>

text \<open>
  The interfaces of \<^verbatim>\<open>studyPlanService.ts\<close> (lines 4-22) and \<^verbatim>\<open>Subject\<close>
  (\<^verbatim>\<open>id\<close>, \<^verbatim>\<open>name\<close>, \<^verbatim>\<open>deadline: Date | undefined\<close>).
  A \<^verbatim>\<open>Date\<close> is its time value, the milliseconds since the epoch, an integer; a
  JavaScript \<^verbatim>\<open>number\<close> that holds an amount of hours is a real, with exact arithmetic
  standing for the doubles. A text is a \<open>string\<close>.
\<close>

record Subject =
  id_s :: string
  name :: string
  deadline :: "int option"

record StudyFormData =
  subjects :: "Subject list"
  dailyHours :: real

datatype priority = High | Medium | Low

record StudyPlanDay =
  day :: string
  date :: string
  subject :: string
  hours :: real
  notes_s :: string
  priority :: priority
  resources :: "string option"

record StudyPlanResult =
  studyPlan :: "StudyPlanDay list"
  motivationalTip :: string

text \<open>
  What a \<^verbatim>\<open>throw\<close> carries: \<^verbatim>\<open>new Error(msg)\<close>, the \<^verbatim>\<open>TypeError\<close> of a property
  read on \<^verbatim>\<open>undefined\<close>, the \<^verbatim>\<open>SyntaxError\<close> of \<^verbatim>\<open>JSON.parse\<close>, and the rejection of
  the HTTP request.
\<close>

datatype js_error = Error string | TypeError | SyntaxError | RequestError string

text \<open>
  The clock and the time zone of one call: \<open>now\<close> is the time value of \<^verbatim>\<open>new Date()\<close>,
  \<open>tza\<close> the offset of local time from UTC in milliseconds. The code reads the clock
  anew in every \<^verbatim>\<open>new Date()\<close>; here one reading serves the whole call.
\<close>

record Env =
  now :: int
  tza :: int

section \<open>Numbers that may be infinite\<close>

text \<open>
  \<^verbatim>\<open>getDaysUntilDeadline\<close> returns an integer or \<^verbatim>\<open>Infinity\<close>, and the comparator of the
  sort subtracts two such values, so \<^verbatim>\<open>Infinity - Infinity\<close>, which is \<^verbatim>\<open>NaN\<close>, occurs.
\<close>

datatype number = Fin int | Infinity | NegInfinity | NaN

fun js_minus :: "number \<Rightarrow> number \<Rightarrow> number" where
  "js_minus NaN _ = NaN"
| "js_minus _ NaN = NaN"
| "js_minus (Fin a) (Fin b) = Fin (a - b)"
| "js_minus (Fin a) Infinity = NegInfinity"
| "js_minus (Fin a) NegInfinity = Infinity"
| "js_minus Infinity Infinity = NaN"
| "js_minus Infinity _ = Infinity"
| "js_minus NegInfinity NegInfinity = NaN"
| "js_minus NegInfinity _ = NegInfinity"

text \<open>\<^verbatim>\<open>x <= n\<close> for an integer \<open>n\<close>: false for \<^verbatim>\<open>NaN\<close> and \<^verbatim>\<open>Infinity\<close>.\<close>

fun js_le :: "number \<Rightarrow> int \<Rightarrow> bool" where
  "js_le (Fin a) n = (a \<le> n)"
| "js_le NegInfinity n = True"
| "js_le Infinity n = False"
| "js_le NaN n = False"

text \<open>\<^verbatim>\<open>x > 0\<close>.\<close>

fun js_pos :: "number \<Rightarrow> bool" where
  "js_pos (Fin a) = (0 < a)"
| "js_pos Infinity = True"
| "js_pos NegInfinity = False"
| "js_pos NaN = False"

section \<open>Array.prototype.sort with a comparator\<close>

text \<open>
  The sort is stable, and a comparator result that is \<^verbatim>\<open>NaN\<close> counts as \<open>+0\<close>
  (SortCompare). For a consistent comparator the result is the one stable insertion
  gives: an element moves behind exactly the elements the comparator puts before it.
\<close>

fun insertBy :: "('a \<Rightarrow> 'a \<Rightarrow> number) \<Rightarrow> 'a \<Rightarrow> 'a list \<Rightarrow> 'a list" where
  "insertBy cmp x [] = [x]"
| "insertBy cmp x (y # ys) =
     (if js_pos (cmp x y) then y # insertBy cmp x ys else x # y # ys)"

definition array_sort :: "('a \<Rightarrow> 'a \<Rightarrow> number) \<Rightarrow> 'a list \<Rightarrow> 'a list" where
  "array_sort cmp xs = foldr (insertBy cmp) xs []"

section \<open>Days until a deadline\<close>

definition msPerDay :: int where
  "msPerDay = 1000 * 60 * 60 * 24"

text \<open>\<^verbatim>\<open>getDaysUntilDeadline\<close> (lines 25-34); \<open>today\<close> is the time value of the clock.\<close>

definition getDaysUntilDeadline :: "int \<Rightarrow> int option \<Rightarrow> number" where
  "getDaysUntilDeadline today deadline' =
     (case deadline' of
        None \<Rightarrow> Infinity
      | Some deadlineDate \<Rightarrow>
          (let diffTime = deadlineDate - today;
               diffDays = \<lceil>real_of_int diffTime / real_of_int msPerDay\<rceil>
           in if diffDays > 0 then Fin diffDays else Fin 0))"

text \<open>The comparator of both sorts (lines 61-65 and 173-177).\<close>

definition compareByDeadline :: "int \<Rightarrow> Subject \<Rightarrow> Subject \<Rightarrow> number" where
  "compareByDeadline today a b =
     (let daysA = getDaysUntilDeadline today (deadline a);
          daysB = getDaysUntilDeadline today (deadline b)
      in js_minus daysA daysB)"

definition sortSubjects :: "int \<Rightarrow> Subject list \<Rightarrow> Subject list" where
  "sortSubjects today xs = array_sort (compareByDeadline today) xs"

section \<open>Calendar dates\<close>

text \<open>
  A \<^verbatim>\<open>Date\<close> object that is only read through its local calendar fields is the number
  of its local day, counted from 1 January 1970. Its fields are those of ECMAScript's
  abstract operations, taken on day numbers: \<^verbatim>\<open>DaysInYear\<close>, \<^verbatim>\<open>DayFromYear\<close>,
  \<^verbatim>\<open>YearFromTime\<close> (the largest year whose first day is not after the day, found here by
  a search down and then up from an estimate), \<^verbatim>\<open>DayWithinYear\<close>, \<^verbatim>\<open>InLeapYear\<close>,
  \<^verbatim>\<open>MonthFromTime\<close>, \<^verbatim>\<open>DateFromTime\<close> and \<^verbatim>\<open>WeekDay\<close>.
\<close>

definition Day :: "int \<Rightarrow> int" where
  "Day t = t div msPerDay"

definition DaysInYear :: "int \<Rightarrow> int" where
  "DaysInYear y =
     (if y mod 4 \<noteq> 0 then 365 else if y mod 100 \<noteq> 0 then 366
      else if y mod 400 \<noteq> 0 then 365 else 366)"

definition DayFromYear :: "int \<Rightarrow> int" where
  "DayFromYear y =
     365 * (y - 1970) + (y - 1969) div 4 - (y - 1901) div 100 + (y - 1601) div 400"

function year_down :: "int \<Rightarrow> int \<Rightarrow> int" where
  "year_down y d = (if d < DayFromYear y then year_down (y - 1) d else y)"
  by pat_completeness auto
termination
proof (relation "measure (\<lambda>(y, d). nat (DayFromYear y - d))")
  show "wf (measure (\<lambda>(y, d). nat (DayFromYear y - d)))"
    by simp
next
  fix y d :: int
  assume less: "d < DayFromYear y"
  have "(y - 1970) div 4 \<le> (y - 1969) div 4"
    by (rule zdiv_mono1) simp_all
  moreover have "(y - 1602) div 400 \<le> (y - 1601) div 400"
    by (rule zdiv_mono1) simp_all
  moreover have "(y - 1901) div 100 \<le> (y - 1902 + 100) div 100"
    by (rule zdiv_mono1) simp_all
  then have "(y - 1901) div 100 \<le> (y - 1902) div 100 + 1"
    by simp
  ultimately have "DayFromYear (y - 1) < DayFromYear y"
    by (simp add: DayFromYear_def)
  with less show "((y - 1, d), (y, d)) \<in> measure (\<lambda>(y, d). nat (DayFromYear y - d))"
    by simp
qed

function year_search :: "int \<Rightarrow> int \<Rightarrow> int" where
  "year_search y d = (if DayFromYear (y + 1) \<le> d then year_search (y + 1) d else y)"
  by pat_completeness auto
termination
proof (relation "measure (\<lambda>(y, d). nat (d - DayFromYear y))")
  show "wf (measure (\<lambda>(y, d). nat (d - DayFromYear y)))"
    by simp
next
  fix y d :: int
  assume le: "DayFromYear (y + 1) \<le> d"
  have "(y - 1969) div 4 \<le> (y - 1968) div 4"
    by (rule zdiv_mono1) simp_all
  moreover have "(y - 1601) div 400 \<le> (y - 1600) div 400"
    by (rule zdiv_mono1) simp_all
  moreover have "(y - 1900) div 100 \<le> (y - 1901 + 100) div 100"
    by (rule zdiv_mono1) simp_all
  then have "(y - 1900) div 100 \<le> (y - 1901) div 100 + 1"
    by simp
  ultimately have "DayFromYear y < DayFromYear (y + 1)"
    by (simp add: DayFromYear_def)
  with le show "((y + 1, d), (y, d)) \<in> measure (\<lambda>(y, d). nat (d - DayFromYear y))"
    by simp
qed

definition YearFromDay :: "int \<Rightarrow> int" where
  "YearFromDay d = year_search (year_down (1970 + d div 365) d) d"

definition DayWithinYear :: "int \<Rightarrow> int" where
  "DayWithinYear d = d - DayFromYear (YearFromDay d)"

definition InLeapYear :: "int \<Rightarrow> int" where
  "InLeapYear d = (if DaysInYear (YearFromDay d) = 366 then 1 else 0)"

text \<open>The tables of \<^verbatim>\<open>MonthFromTime\<close> and \<^verbatim>\<open>DateFromTime\<close>, for the day \<open>n\<close> within the
  year and the leap flag \<open>L\<close>.\<close>

definition month_of :: "int \<Rightarrow> int \<Rightarrow> int" where
  "month_of n L =
     (if n < 31 then 0
      else if n < 59 + L then 1
      else if n < 90 + L then 2
      else if n < 120 + L then 3
      else if n < 151 + L then 4
      else if n < 181 + L then 5
      else if n < 212 + L then 6
      else if n < 243 + L then 7
      else if n < 273 + L then 8
      else if n < 304 + L then 9
      else if n < 334 + L then 10
      else 11)"

definition date_of :: "int \<Rightarrow> int \<Rightarrow> int" where
  "date_of n L =
     (let m = month_of n L in
      if m = 0 then n + 1
      else if m = 1 then n - 30
      else if m = 2 then n - 58 - L
      else if m = 3 then n - 89 - L
      else if m = 4 then n - 119 - L
      else if m = 5 then n - 150 - L
      else if m = 6 then n - 180 - L
      else if m = 7 then n - 211 - L
      else if m = 8 then n - 242 - L
      else if m = 9 then n - 272 - L
      else if m = 10 then n - 303 - L
      else n - 333 - L)"

definition getFullYear :: "int \<Rightarrow> int" where
  "getFullYear d = YearFromDay d"

definition getMonth :: "int \<Rightarrow> int" where
  "getMonth d = month_of (DayWithinYear d) (InLeapYear d)"

definition getDate :: "int \<Rightarrow> int" where
  "getDate d = date_of (DayWithinYear d) (InLeapYear d)"

definition getDay :: "int \<Rightarrow> int" where
  "getDay d = (d + 4) mod 7"

text \<open>
  \<^verbatim>\<open>setDate(dt)\<close> keeps year and month and sets the day of month, which may lie outside
  the month: the result is the day \<open>dt - 1\<close> days after the first of the month.
\<close>

definition setDate :: "int \<Rightarrow> int \<Rightarrow> int" where
  "setDate d dt = (d - (getDate d - 1)) + (dt - 1)"

section \<open>Texts\<close>

function show_nat :: "nat \<Rightarrow> string" where
  "show_nat n =
     (if n < 10 then [char_of (48 + n)]
      else show_nat (n div 10) @ [char_of (48 + n mod 10)])"
  by pat_completeness auto
termination
  by (relation "measure id") auto

definition show_int :: "int \<Rightarrow> string" where
  "show_int i = (if i < 0 then CHR ''-'' # show_nat (nat (- i)) else show_nat (nat i))"

definition toLowerCase :: "string \<Rightarrow> string" where
  "toLowerCase s =
     map (\<lambda>c. let n = (of_char c :: nat) in if 65 \<le> n \<and> n \<le> 90 then char_of (n + 32) else c) s"

definition includes_s :: "string \<Rightarrow> string \<Rightarrow> bool" where
  "includes_s s sub = sublist sub s"

section \<open>The next five days\<close>

definition days :: "string list" where
  "days = [''Sunday'', ''Monday'', ''Tuesday'', ''Wednesday'', ''Thursday'', ''Friday'',
           ''Saturday'']"

definition months :: "string list" where
  "months = [''Jan'', ''Feb'', ''Mar'', ''Apr'', ''May'', ''Jun'', ''Jul'', ''Aug'', ''Sep'',
             ''Oct'', ''Nov'', ''Dec'']"

text \<open>
  The object \<^verbatim>\<open>{ day, date }\<close> pushed for the date object \<open>d\<close> (lines 48-51), as the pair
  of its two texts.
\<close>

definition dayInfo :: "int \<Rightarrow> string \<times> string" where
  "dayInfo d =
     (days ! nat (getDay d),
      months ! nat (getMonth d) @ '' '' @ show_int (getDate d) @ '', '' @ show_int (getFullYear d))"

text \<open>\<^verbatim>\<open>getNextFiveDays\<close> (lines 37-55); \<open>today\<close> is the local day of the clock.\<close>

definition getNextFiveDays :: "int \<Rightarrow> (string \<times> string) list" where
  "getNextFiveDays today =
     map (\<lambda>i. let d = setDate today (getDate today + int i) in dayInfo d) [0..<5]"

section \<open>The fallback planner\<close>

text \<open>\<^verbatim>\<open>getSubjectNotes\<close> (lines 127-147).\<close>

definition getSubjectNotes :: "string \<Rightarrow> string" where
  "getSubjectNotes subject' =
     (let subjectLower = toLowerCase subject' in
      if includes_s subjectLower ''math'' then
        ''Practice equations using spaced repetition, solve problem sets with increasing difficulty, and create concept maps for formulas and theorems''
      else if includes_s subjectLower ''physics'' then
        ''Review key concepts through visual diagrams, solve numerical problems, and watch simulations of physical phenomena''
      else if includes_s subjectLower ''chemistry'' then
        ''Create flashcards for chemical reactions, practice balancing equations, and review periodic table relationships''
      else if includes_s subjectLower ''biology'' then
        ''Draw detailed diagrams of biological systems, create concept maps for processes, and review key terminology''
      else if includes_s subjectLower ''history'' \<or> includes_s subjectLower ''social'' then
        ''Create timeline charts, practice active recall of key events, and analyze primary sources using the Cornell note-taking method''
      else if includes_s subjectLower ''english'' \<or> includes_s subjectLower ''literature''
              \<or> includes_s subjectLower ''lang'' then
        ''Read assigned texts using active reading techniques, practice writing essays with clear thesis statements, and build vocabulary through contextual learning''
      else if includes_s subjectLower ''computer'' \<or> includes_s subjectLower ''programming''
              \<or> includes_s subjectLower ''coding'' then
        ''Work on coding projects with test-driven development, debug exercises systematically, and document your learning process in a coding journal''
      else
        ''Review course materials using the Feynman technique, create summary notes with mind maps, and practice retrieval with self-quizzing'')"

text \<open>\<^verbatim>\<open>getSubjectResources\<close> (lines 150-170).\<close>

definition getSubjectResources :: "string \<Rightarrow> string" where
  "getSubjectResources subject' =
     (let subjectLower = toLowerCase subject' in
      if includes_s subjectLower ''math'' then
        ''Wolfram Alpha for equation solving, Khan Academy for tutorials, Desmos for graphing''
      else if includes_s subjectLower ''physics'' then
        ''PhET simulations, Brilliant.org physics courses, Gemini for problem-solving assistance''
      else if includes_s subjectLower ''chemistry'' then
        ''Periodic Table apps, Molecular modeling tools, ChemCollective virtual labs''
      else if includes_s subjectLower ''biology'' then
        ''BioDigital Human for 3D models, Labster for virtual labs, Quizlet for terminology''
      else if includes_s subjectLower ''history'' \<or> includes_s subjectLower ''social'' then
        ''Timeline JS for visual timelines, Google Arts & Culture for primary sources, Gemini for historical context''
      else if includes_s subjectLower ''english'' \<or> includes_s subjectLower ''literature''
              \<or> includes_s subjectLower ''lang'' then
        ''Grammarly for writing assistance, ThesaurusAI for vocabulary, Gemini models for essay feedback''
      else if includes_s subjectLower ''computer'' \<or> includes_s subjectLower ''programming''
              \<or> includes_s subjectLower ''coding'' then
        ''GitHub Copilot for coding assistance, LeetCode for practice, Stack Overflow for problem-solving''
      else
        ''Notion AI for note organization, Anki for flashcards, Gemini for concept explanations'')"

text \<open>\<^verbatim>\<open>getPriorityByDeadline\<close> (lines 185-190).\<close>

definition getPriorityByDeadline :: "int \<Rightarrow> Subject \<Rightarrow> priority" where
  "getPriorityByDeadline today subject' =
     (let days' = getDaysUntilDeadline today (deadline subject') in
      if js_le days' 7 then High
      else if js_le days' 14 then Medium
      else Low)"

text \<open>
  \<^verbatim>\<open>xs[i]\<close> followed by a property read: outside the array the element is
  \<^verbatim>\<open>undefined\<close> and the property read throws a \<^verbatim>\<open>TypeError\<close>.
\<close>

definition elem_at :: "'a list \<Rightarrow> nat \<Rightarrow> js_error + 'a" where
  "elem_at xs i = (if i < length xs then Inr (xs ! i) else Inl TypeError)"

text \<open>\<^verbatim>\<open>Array.prototype.map\<close> with a callback that may throw: the first throw ends it.\<close>

fun map_throwing :: "('a \<Rightarrow> js_error + 'b) \<Rightarrow> 'a list \<Rightarrow> js_error + 'b list" where
  "map_throwing f [] = Inr []"
| "map_throwing f (x # xs) =
     (case f x of
        Inl e \<Rightarrow> Inl e
      | Inr y \<Rightarrow> (case map_throwing f xs of Inl e \<Rightarrow> Inl e | Inr ys \<Rightarrow> Inr (y # ys)))"

text \<open>Line 198.\<close>

definition isMultiSubjectDay :: "nat \<Rightarrow> Subject list \<Rightarrow> bool" where
  "isMultiSubjectDay index availableSubjects \<longleftrightarrow>
     index mod 2 = 0 \<and> length availableSubjects > 1"

definition assessmentSuffix :: "nat \<Rightarrow> string" where
  "assessmentSuffix index = (if index = 4 then '' - prepare for assessment'' else [])"

text \<open>The callback of \<^verbatim>\<open>nextFiveDays.map\<close> (lines 196-241).\<close>

definition studyPlanDay ::
  "int \<Rightarrow> StudyFormData \<Rightarrow> Subject list \<Rightarrow> string \<times> string \<Rightarrow> nat \<Rightarrow> js_error + StudyPlanDay"
where
  "studyPlanDay today data availableSubjects dayInfo' index =
     (if isMultiSubjectDay index availableSubjects then
        (case elem_at availableSubjects (index mod length availableSubjects) of
           Inl e \<Rightarrow> Inl e
         | Inr subject1 \<Rightarrow>
        (case elem_at availableSubjects ((index + 1) mod length availableSubjects) of
           Inl e \<Rightarrow> Inl e
         | Inr subject2 \<Rightarrow>
           (let combinedSubjects = name subject1 @ '', '' @ name subject2;
                priority1 = getPriorityByDeadline today subject1;
                priority2 = getPriorityByDeadline today subject2;
                highestPriority =
                  (if priority1 = High \<or> priority2 = High then High
                   else if priority1 = Medium \<or> priority2 = Medium then Medium
                   else Low);
                notes' = name subject1 @ '': '' @ getSubjectNotes (name subject1) @ ''. ''
                  @ name subject2 @ '': '' @ getSubjectNotes (name subject2)
                  @ assessmentSuffix index;
                resources' = name subject1 @ '': '' @ getSubjectResources (name subject1) @ ''. ''
                  @ name subject2 @ '': '' @ getSubjectResources (name subject2)
            in Inr \<lparr>day = fst dayInfo', date = snd dayInfo', subject = combinedSubjects,
                     hours = dailyHours data, notes_s = notes', priority = highestPriority,
                     resources = Some resources'\<rparr>)))
      else
        (case elem_at availableSubjects (index mod length availableSubjects) of
           Inl e \<Rightarrow> Inl e
         | Inr subject' \<Rightarrow>
             Inr \<lparr>day = fst dayInfo', date = snd dayInfo', subject = name subject',
                   hours = real_of_int
                     \<lceil>dailyHours data
                        * (if getPriorityByDeadline today subject' = High then 0.8 else 0.5)\<rceil>,
                   notes_s = getSubjectNotes (name subject') @ assessmentSuffix index,
                   priority = getPriorityByDeadline today subject',
                   resources = Some (getSubjectResources (name subject'))\<rparr>))"

text \<open>Lines 179-182; the placeholder's deadline is \<^verbatim>\<open>new Date()\<close>.\<close>

definition availableSubjects_of :: "int \<Rightarrow> Subject list \<Rightarrow> Subject list" where
  "availableSubjects_of today sortedSubjects =
     (if length sortedSubjects > 0 then sortedSubjects
      else [\<lparr>id_s = ''1'', name = ''General Study'', deadline = Some today\<rparr>])"

definition motivationalTip_text :: string where
  "motivationalTip_text =
     ''Remember, consistency beats intensity! Study a little every day rather than cramming. Your future self will thank you for the disciplined effort you put in today. Stay focused and believe in yourself! ''
     @ map char_of [0xC3, 0xB0, 0xC5, 0xB8, 0xC5, 0xBD, 0xC2, 0xAF, 0xC3, 0xA2, 0xC5, 0x93,
                    0xC2, 0xA8 :: nat]"

text \<open>\<^verbatim>\<open>generateFallbackStudyPlan\<close> (lines 125-249).\<close>

definition generateFallbackStudyPlan :: "Env \<Rightarrow> StudyFormData \<Rightarrow> js_error + StudyPlanResult" where
  "generateFallbackStudyPlan env data =
     (let sortedSubjects = sortSubjects (now env) (subjects data);
          availableSubjects = availableSubjects_of (now env) sortedSubjects;
          nextFiveDays = getNextFiveDays (Day (now env + tza env))
      in case map_throwing (\<lambda>(dayInfo', index).
                studyPlanDay (now env) data availableSubjects dayInfo' index)
              (zip nextFiveDays [0..<length nextFiveDays]) of
           Inl e \<Rightarrow> Inl e
         | Inr studyPlan' \<Rightarrow>
             Inr \<lparr>studyPlan = studyPlan', motivationalTip = motivationalTip_text\<rparr>)"

text \<open>The value of \<^verbatim>\<open>availableSubjects\<close> in a run of the planner (lines 173-182).\<close>

definition planSubjects :: "Env \<Rightarrow> StudyFormData \<Rightarrow> Subject list" where
  "planSubjects env data =
     availableSubjects_of (now env) (sortSubjects (now env) (subjects data))"


section \<open>The completion client\<close>

text \<open>
  The types of the client module: the messages and the completion object of
  \<^verbatim>\<open>chat.completions.create\<close>, and \<^verbatim>\<open>GeminiResponse\<close> with its parts.
\<close>

record Message =
  role :: string
  content :: string

record Choice =
  message :: Message
  finish_reason :: string

record Completion =
  choices :: "Choice list"

record GeminiResponsePart =
  text_s :: string

record GeminiResponseContent =
  parts :: "GeminiResponsePart list"
  role_s :: string

record GeminiCandidate =
  content_s :: GeminiResponseContent
  finishReason :: string
  index_s :: nat

record GeminiResponse =
  candidates :: "GeminiCandidate list"

text \<open>
  What the code calls and does not define: the locale's date format, the text of a
  number, the HTTP request (from the text of the payload to a rejection or the response
  data), and \<^verbatim>\<open>JSON.parse\<close> (\<open>None\<close> when it throws), whose values have the type \<open>'j\<close>.
\<close>

record 'j Host =
  toLocaleDateString :: "int \<Rightarrow> string"
  numberToString :: "real \<Rightarrow> string"
  axios_post :: "string \<Rightarrow> js_error + GeminiResponse"
  JSON_parse :: "string \<Rightarrow> 'j option"

definition nl :: string where
  "nl = [CHR 0x0A]"

definition dq :: string where
  "dq = [CHR 0x22]"

text \<open>
  \<^verbatim>\<open>response.data.candidates[0]?.content.parts[0]?.text\<close>: the text of the first part
  of the first candidate, \<open>None\<close> for \<^verbatim>\<open>undefined\<close>.
\<close>

definition generatedText_of :: "GeminiResponse \<Rightarrow> string option" where
  "generatedText_of response =
     (case candidates response of
        [] \<Rightarrow> None
      | c # _ \<Rightarrow> (case parts (content_s c) of [] \<Rightarrow> None | p # _ \<Rightarrow> Some (text_s p)))"

text \<open>\<^verbatim>\<open>generateContent\<close> of the client; \<open>post\<close> is the HTTP request.\<close>

definition generateContent ::
  "(string \<Rightarrow> js_error + GeminiResponse) \<Rightarrow> string \<Rightarrow> string \<Rightarrow> js_error + string"
where
  "generateContent post prompt systemPrompt =
     (let payload = (if systemPrompt \<noteq> [] then systemPrompt @ nl @ nl @ prompt else prompt)
      in case post payload of
           Inl error \<Rightarrow> Inl error
         | Inr response \<Rightarrow>
             (case generatedText_of response of
                None \<Rightarrow> Inl (Error ''No response from Gemini API'')
              | Some generatedText \<Rightarrow>
                  if generatedText = [] then Inl (Error ''No response from Gemini API'')
                  else Inr generatedText))"

text \<open>\<^verbatim>\<open>chat.completions.create\<close> of the client.\<close>

definition chat_completions_create ::
  "(string \<Rightarrow> js_error + GeminiResponse) \<Rightarrow> Message list \<Rightarrow> js_error + Completion"
where
  "chat_completions_create post messages =
     (let systemMessage =
            (case find (\<lambda>msg. role msg = ''system'') messages of
               Some msg \<Rightarrow> content msg | None \<Rightarrow> []);
          userMessage =
            (case find (\<lambda>msg. role msg = ''user'') messages of
               Some msg \<Rightarrow> content msg | None \<Rightarrow> [])
      in case generateContent post userMessage systemMessage of
           Inl error \<Rightarrow> Inl error
         | Inr content' \<Rightarrow>
             Inr \<lparr>choices = [\<lparr>message = \<lparr>role = ''assistant'', content = content'\<rparr>,
                               finish_reason = ''stop''\<rparr>]\<rparr>)"

section \<open>The prompt and the parsing of the response\<close>

definition show_number :: "number \<Rightarrow> string" where
  "show_number x =
     (case x of Fin n \<Rightarrow> show_int n | Infinity \<Rightarrow> ''Infinity''
      | NegInfinity \<Rightarrow> ''-Infinity'' | NaN \<Rightarrow> ''NaN'')"

fun join :: "string \<Rightarrow> string list \<Rightarrow> string" where
  "join sep [] = []"
| "join sep [x] = x"
| "join sep (x # y # ys) = x @ sep @ join sep (y # ys)"

text \<open>The callback of \<^verbatim>\<open>sortedSubjects.map\<close> (lines 68-75).\<close>

definition subjectLine :: "Env \<Rightarrow> 'j Host \<Rightarrow> Subject \<Rightarrow> string" where
  "subjectLine env host subject' =
     (let daysUntil = getDaysUntilDeadline (now env) (deadline subject');
          deadlineInfo =
            (case deadline subject' of
               Some d \<Rightarrow> ''deadline in '' @ show_number daysUntil @ '' days (''
                 @ toLocaleDateString host d @ '')''
             | None \<Rightarrow> ''no specific deadline'')
      in ''- '' @ name subject' @ '': '' @ deadlineInfo)"

text \<open>The template of lines 81-89; \<open>d0\<close> is \<^verbatim>\<open>nextFiveDays[0]\<close>.\<close>

definition prompt_text :: "'j Host \<Rightarrow> StudyFormData \<Rightarrow> string \<Rightarrow> string \<times> string \<Rightarrow> string" where
  "prompt_text host data subjectInfo d0 =
        ''Create a detailed 5-day study plan for a student with the following subjects:'' @ nl
        @ subjectInfo @ nl @ nl @ ''The student can study ''
        @ numberToString host (dailyHours data) @ '' hours per day.'' @ nl @ nl
        @ ''For each day, provide the following:'' @ nl
        @ ''1. Assign multiple subjects per day when appropriate (comma-separated)'' @ nl
        @ ''2. Allocate study hours (not exceeding daily limit)'' @ nl
        @ ''3. Create detailed, subject-specific study notes with actionable techniques'' @ nl
        @ ''4. Assign priority (high/medium/low) based on deadline proximity'' @ nl
        @ ''5. Include specific learning strategies tailored to each subject type (math, science, language, etc.)''
        @ nl @ nl
        @ ''Prioritize subjects with closer deadlines. Distribute study time effectively across all subjects, with more time for subjects with closer deadlines.''
        @ nl @ nl @ ''Format your response as a JSON object with this structure:'' @ nl @ ''{''
        @ nl @ ''  '' @ dq @ ''studyPlan'' @ dq @ '': ['' @ nl @ ''    {'' @ nl @ ''      ''
        @ dq @ ''day'' @ dq @ '': '' @ dq @ fst d0 @ dq @ '','' @ nl @ ''      '' @ dq
        @ ''date'' @ dq @ '': '' @ dq @ snd d0 @ dq @ '','' @ nl @ ''      '' @ dq @ ''subject''
        @ dq @ '': '' @ dq @ ''Subject Name'' @ dq @ '','' @ nl @ ''      '' @ dq @ ''hours''
        @ dq @ '': 2,'' @ nl @ ''      '' @ dq @ ''notes'' @ dq @ '': '' @ dq
        @ ''Detailed study notes with specific techniques'' @ dq @ '','' @ nl @ ''      '' @ dq
        @ ''priority'' @ dq @ '': '' @ dq @ ''high'' @ dq @ '','' @ nl @ ''      '' @ dq
        @ ''resources'' @ dq @ '': '' @ dq @ ''Recommended tools and resources'' @ dq @ nl
        @ ''    },'' @ nl @ ''    // More days...'' @ nl @ ''  ],'' @ nl @ ''  '' @ dq
        @ ''motivationalTip'' @ dq @ '': '' @ dq @ ''A motivational message for the student''
        @ dq @ nl @ ''}''"

text \<open>
  \<^verbatim>\<open>content.match(/\{[\s\S]*\}/)\<close>: the match starts at the first \<^verbatim>\<open>{\<close> and, the star
  being greedy, ends at the last \<^verbatim>\<open>}\<close> behind it; there is none when no \<^verbatim>\<open>}\<close> follows
  the first \<^verbatim>\<open>{\<close>.
\<close>

definition jsonMatch :: "string \<Rightarrow> string option" where
  "jsonMatch content' =
     (case dropWhile (\<lambda>c. c \<noteq> CHR ''{'') content' of
        [] \<Rightarrow> None
      | b # rest \<Rightarrow>
          if CHR ''}'' \<in> set rest
          then Some (b # rev (dropWhile (\<lambda>c. c \<noteq> CHR ''}'') (rev rest)))
          else None)"

section \<open>generateStudyPlan\<close>

text \<open>
  What the caller receives: the value \<^verbatim>\<open>JSON.parse\<close> returned, cast to
  \<^verbatim>\<open>StudyPlanResult\<close> without a check, or the plan of the fallback planner.
\<close>

datatype 'j plan_value = Parsed 'j | Fallback StudyPlanResult

text \<open>The body of the \<^verbatim>\<open>try\<close> block (lines 60-115); \<open>Inl\<close> is a throw.\<close>

definition generateStudyPlan_try :: "Env \<Rightarrow> 'j Host \<Rightarrow> StudyFormData \<Rightarrow> js_error + 'j" where
  "generateStudyPlan_try env host data =
     (let sortedSubjects = sortSubjects (now env) (subjects data);
          subjectInfo = join nl (map (subjectLine env host) sortedSubjects);
          nextFiveDays = getNextFiveDays (Day (now env + tza env))
      in case elem_at nextFiveDays 0 of
           Inl e \<Rightarrow> Inl e
         | Inr d0 \<Rightarrow>
      (case chat_completions_create (axios_post host)
              [\<lparr>role = ''system'',
                content = ''You are an expert study planner and academic advisor.''\<rparr>,
               \<lparr>role = ''user'', content = prompt_text host data subjectInfo d0\<rparr>] of
           Inl e \<Rightarrow> Inl e
         | Inr response \<Rightarrow>
      (case (case choices response of [] \<Rightarrow> None | c # _ \<Rightarrow> Some (content (message c))) of
           None \<Rightarrow> Inl (Error ''No response from Gemini'')
         | Some content' \<Rightarrow>
             if content' = [] then Inl (Error ''No response from Gemini'')
             else
               (case jsonMatch content' of
                  None \<Rightarrow> Inl (Error ''Could not parse JSON from Gemini response'')
                | Some jsonMatch0 \<Rightarrow>
                    (case JSON_parse host jsonMatch0 of
                       None \<Rightarrow> Inl SyntaxError
                     | Some studyPlanData \<Rightarrow> Inr studyPlanData)))))"

text \<open>
  \<^verbatim>\<open>generateStudyPlan\<close> (lines 58-122): the \<^verbatim>\<open>catch\<close> block logs the error and
  returns the plan of the fallback planner.
\<close>

definition generateStudyPlan ::
  "Env \<Rightarrow> 'j Host \<Rightarrow> StudyFormData \<Rightarrow> js_error + 'j plan_value"
where
  "generateStudyPlan env host data =
     (case generateStudyPlan_try env host data of
        Inr studyPlanData \<Rightarrow> Inr (Parsed studyPlanData)
      | Inl error \<Rightarrow>
          (case generateFallbackStudyPlan env data of
             Inl e \<Rightarrow> Inl e
           | Inr plan \<Rightarrow> Inr (Fallback plan)))"

section \<open>Notions the properties are stated with\<close>

text \<open>
  The text the HTTP request of \<^verbatim>\<open>generateStudyPlan\<close> carries: the system message, an
  empty line, and the prompt for the sorted subjects and the first of the five days.
\<close>

definition payload_text :: "Env \<Rightarrow> 'j Host \<Rightarrow> StudyFormData \<Rightarrow> string" where
  "payload_text env host data =
     ''You are an expert study planner and academic advisor.'' @ nl @ nl
     @ prompt_text host data
         (join nl (map (subjectLine env host) (sortSubjects (now env) (subjects data))))
         (dayInfo (Day (now env + tza env)))"

text \<open>
  The days until a deadline as an extended natural number: the comparator's result is
  positive exactly when the first subject's value is the larger one.
\<close>

definition days_enat :: "number \<Rightarrow> enat" where
  "days_enat x = (case x of Fin n \<Rightarrow> enat (nat n) | _ \<Rightarrow> \<infinity>)"

definition daysKey :: "int \<Rightarrow> Subject \<Rightarrow> enat" where
  "daysKey today s = days_enat (getDaysUntilDeadline today (deadline s))"

text \<open>
  A stand-in for \<^verbatim>\<open>JSON.parse\<close> on the two texts an example consults: it accepts the
  text \<open>good\<close>, with the value \<open>v\<close>, and throws on every other text.
\<close>

definition parse_only :: "string \<Rightarrow> 'j \<Rightarrow> string \<Rightarrow> 'j option" where
  "parse_only good v s = (if s = good then Some v else None)"

text \<open>
  Example inputs: a clock at midnight UTC of 3 November 2026, a form with no subject and a
  form with three, a response that carries one text, and a host built from a request and
  a parser (its two formatting functions are placeholders no property reads).
\<close>

definition env0 :: Env where
  "env0 = \<lparr>now = 1793664000000, tza = 0\<rparr>"

definition no_subjects :: StudyFormData where
  "no_subjects = \<lparr>subjects = [], dailyHours = 3\<rparr>"

definition three_subjects :: StudyFormData where
  "three_subjects =
     \<lparr>subjects =
        [\<lparr>id_s = ''1'', name = ''Essay'', deadline = None\<rparr>,
         \<lparr>id_s = ''2'', name = ''Art'', deadline = Some (1793664000000 + 10 * 86400000)\<rparr>,
         \<lparr>id_s = ''3'', name = ''Math'', deadline = Some (1793664000000 + 5 * 86400000)\<rparr>],
      dailyHours = 4\<rparr>"

definition response_with :: "string \<Rightarrow> GeminiResponse" where
  "response_with t =
     \<lparr>candidates =
        [\<lparr>content_s = \<lparr>parts = [\<lparr>text_s = t\<rparr>], role_s = ''model''\<rparr>,
          finishReason = ''STOP'', index_s = 0\<rparr>]\<rparr>"

definition host_of ::
  "(string \<Rightarrow> js_error + GeminiResponse) \<Rightarrow> (string \<Rightarrow> 'j option) \<Rightarrow> 'j Host" where
  "host_of post parse =
     \<lparr>toLocaleDateString = (\<lambda>t. show_int t), numberToString = (\<lambda>x. show_int \<lfloor>x\<rfloor>),
      axios_post = post, JSON_parse = parse\<rparr>"

text \<open>
  A response text that is a JSON object for a plan, the value it stands for, and three
  hosts: one whose request is rejected, one that answers with the object inside prose
  without braces, one that answers with the object behind prose that has braces.
\<close>

definition mid_text :: string where
  "mid_text = dq @ ''studyPlan'' @ dq @ '':[],'' @ dq @ ''motivationalTip'' @ dq @ '':''
     @ dq @ ''ok'' @ dq"

definition good_text :: string where
  "good_text = CHR ''{'' # mid_text @ [CHR ''}'']"

definition good_value :: StudyPlanResult where
  "good_value = \<lparr>studyPlan = [], motivationalTip = ''ok''\<rparr>"

definition failing_host :: "StudyPlanResult Host" where
  "failing_host = host_of (\<lambda>_. Inl (RequestError ''Network Error'')) (\<lambda>_. None)"

definition clean_host :: "StudyPlanResult Host" where
  "clean_host =
     host_of (\<lambda>_. Inr (response_with (''Here is your plan: '' @ good_text @ '' Good luck!'')))
       (parse_only good_text good_value)"

definition braces_host :: "StudyPlanResult Host" where
  "braces_host =
     host_of (\<lambda>_. Inr (response_with (''Plan {draft}: '' @ good_text @ '' Good luck!'')))
       (parse_only good_text good_value)"

text \<open>
  The calendar, said without day numbers: the date of a day as year, month (from 0) and
  day of the month, the leap years, the lengths of the months, and the date that follows
  a date.
\<close>

definition civil :: "int \<Rightarrow> int \<times> int \<times> int" where
  "civil d = (getFullYear d, getMonth d, getDate d)"

definition leap_year :: "int \<Rightarrow> bool" where
  "leap_year y \<longleftrightarrow> y mod 4 = 0 \<and> (y mod 100 \<noteq> 0 \<or> y mod 400 = 0)"

definition month_length :: "int \<Rightarrow> int \<Rightarrow> int" where
  "month_length y m =
     (if m = 1 then (if leap_year y then 29 else 28)
      else if m = 3 \<or> m = 5 \<or> m = 8 \<or> m = 10 then 30
      else 31)"

definition next_date :: "int \<times> int \<times> int \<Rightarrow> int \<times> int \<times> int" where
  "next_date c =
     (case c of (y, m, d) \<Rightarrow>
        if d < month_length y m then (y, m, d + 1)
        else if m < 11 then (y, m + 1, 1)
        else (y + 1, 0, 1))"

text \<open>A clock at 05:00 UTC of 28 February 2024, five hours east of local time.\<close>

definition env_leap :: Env where
  "env_leap = \<lparr>now = 1709096400000, tza = - 18000000\<rparr>"

text \<open>
  The values \<^verbatim>\<open>JSON.parse\<close> returns, and what the interfaces \<^verbatim>\<open>StudyPlanDay\<close> and
  \<^verbatim>\<open>StudyPlanResult\<close> (lines 9-22) ask of such a value.
\<close>

datatype json =
  JNull | JBool bool | JNumber real | JString string | JArray "json list"
  | JObject "(string \<times> json) list"

definition is_string :: "json option \<Rightarrow> bool" where
  "is_string j = (case j of Some (JString _) \<Rightarrow> True | _ \<Rightarrow> False)"

definition is_StudyPlanDay :: "json \<Rightarrow> bool" where
  "is_StudyPlanDay j =
     (case j of
        JObject fs \<Rightarrow>
          is_string (map_of fs ''day'') \<and> is_string (map_of fs ''date'')
          \<and> is_string (map_of fs ''subject'')
          \<and> (case map_of fs ''hours'' of Some (JNumber _) \<Rightarrow> True | _ \<Rightarrow> False)
          \<and> is_string (map_of fs ''notes'')
          \<and> (map_of fs ''priority'' = Some (JString ''high'')
               \<or> map_of fs ''priority'' = Some (JString ''medium'')
               \<or> map_of fs ''priority'' = Some (JString ''low''))
          \<and> (map_of fs ''resources'' = None \<or> is_string (map_of fs ''resources''))
      | _ \<Rightarrow> False)"

definition is_StudyPlanResult :: "json \<Rightarrow> bool" where
  "is_StudyPlanResult j =
     (case j of
        JObject fs \<Rightarrow>
          (case map_of fs ''studyPlan'' of
             Some (JArray days') \<Rightarrow> list_all is_StudyPlanDay days'
           | _ \<Rightarrow> False)
          \<and> is_string (map_of fs ''motivationalTip'')
      | _ \<Rightarrow> False)"

text \<open>A host that answers with the text of the empty object, which \<^verbatim>\<open>JSON.parse\<close> accepts.\<close>

definition empty_object_host :: "json Host" where
  "empty_object_host =
     host_of (\<lambda>_. Inr (response_with ''{}'')) (parse_only ''{}'' (JObject []))"

section \<open>Properties of the calendar\<close>

lemma div_step:
  fixes a n :: int
  assumes "0 < n"
  shows "(a + 1) div n = a div n + (if (a + 1) mod n = 0 then 1 else 0)"
proof -
  have a: "a = n * (a div n) + a mod n" by simp
  have r: "0 \<le> a mod n" "a mod n < n" using assms by simp_all
  show ?thesis
  proof (cases "a mod n + 1 < n")
    case True
    have e: "a + 1 = n * (a div n) + (a mod n + 1)" using a by linarith
    have "(a + 1) div n = a div n"
      by (rule int_div_pos_eq [OF e]) (use r True in simp_all)
    moreover have "(a + 1) mod n = a mod n + 1"
      by (rule int_mod_pos_eq [OF e]) (use r True in simp_all)
    ultimately show ?thesis using r by simp
  next
    case False
    then have f: "a mod n + 1 = n" using r by linarith
    have "a + 1 = n * (a div n) + n" using a f by linarith
    then have e: "a + 1 = n * (a div n + 1) + 0" by (simp add: distrib_left)
    have "(a + 1) div n = a div n + 1"
      by (rule int_div_pos_eq [OF e]) (use assms in simp_all)
    moreover have "(a + 1) mod n = 0"
      by (rule int_mod_pos_eq [OF e]) (use assms in simp_all)
    ultimately show ?thesis by simp
  qed
qed

lemma mod_shift: "((y::int) - n * k) mod n = y mod n"
  by algebra

lemma mod_400_100: "(y::int) mod 400 = 0 \<Longrightarrow> y mod 100 = 0"
proof -
  assume "y mod 400 = 0"
  then obtain k where "y = 400 * k" by (auto simp: mod_eq_0_iff_dvd)
  then have "y = 100 * (4 * k)" by simp
  then show ?thesis by (simp only: mod_mult_self1_is_0)
qed
    

lemma mod_100_4: "(y::int) mod 100 = 0 \<Longrightarrow> y mod 4 = 0"
proof -
  assume "y mod 100 = 0"
  then obtain k where "y = 100 * k" by (auto simp: mod_eq_0_iff_dvd)
  then have "y = 4 * (25 * k)" by simp
  then show ?thesis by (simp only: mod_mult_self1_is_0)
qed

lemma step4: "((y::int) - 1968) div 4 = (y - 1969) div 4 + (if y mod 4 = 0 then 1 else 0)"
proof -
  have "(y - 1968) mod 4 = y mod 4"
    using mod_shift [of y 4 492] by simp
  with div_step [of 4 "y - 1969"] show ?thesis by simp
qed

lemma step100: "((y::int) - 1900) div 100 = (y - 1901) div 100 + (if y mod 100 = 0 then 1 else 0)"
proof -
  have "(y - 1900) mod 100 = y mod 100"
    using mod_shift [of y 100 19] by simp
  with div_step [of 100 "y - 1901"] show ?thesis by simp
qed

lemma step400: "((y::int) - 1600) div 400 = (y - 1601) div 400 + (if y mod 400 = 0 then 1 else 0)"
proof -
  have "(y - 1600) mod 400 = y mod 400"
    using mod_shift [of y 400 4] by simp
  with div_step [of 400 "y - 1601"] show ?thesis by simp
qed

lemma DayFromYear_Suc: "DayFromYear (y + 1) = DayFromYear y + DaysInYear y"
proof -
  have "DayFromYear (y + 1)
      = 365 * (y - 1969) + (y - 1968) div 4 - (y - 1900) div 100 + (y - 1600) div 400"
    by (simp add: DayFromYear_def)
  then show ?thesis
    using mod_400_100 [of y] mod_100_4 [of y]
    by (auto simp: step4 step100 step400 DayFromYear_def DaysInYear_def)
qed

lemma DaysInYear_bounds: "365 \<le> DaysInYear y" "DaysInYear y \<le> 366"
  by (simp_all add: DaysInYear_def)

lemma DayFromYear_mono:
  assumes "y \<le> z"
  shows "DayFromYear y \<le> DayFromYear z"
  using assms
proof (induction z rule: int_ge_induct)
  case base
  show ?case by simp
next
  case (step z)
  then show ?case
    using DaysInYear_bounds(1) [of z] by (simp add: DayFromYear_Suc)
qed

declare year_search.simps [simp del]

lemma year_search_bracket:
  assumes "DayFromYear y \<le> d"
  shows "DayFromYear (year_search y d) \<le> d \<and> d < DayFromYear (year_search y d + 1)"
  using assms
proof (induction y d rule: year_search.induct)
  case (1 y d)
  show ?case
  proof (cases "DayFromYear (y + 1) \<le> d")
    case True
    with "1.IH" show ?thesis by (subst (1 2) year_search.simps) simp
  next
    case False
    with "1.prems" show ?thesis by (subst (1 2) year_search.simps) simp
  qed
qed


declare year_down.simps [simp del]

lemma year_down_below: "DayFromYear (year_down y d) \<le> d"
proof (induction y d rule: year_down.induct)
  case (1 y d)
  show ?case
  proof (cases "d < DayFromYear y")
    case True
    with "1.IH" show ?thesis by (subst year_down.simps) simp
  next
    case False
    then show ?thesis by (subst year_down.simps) simp
  qed
qed

lemma year_bracket:
  "DayFromYear (YearFromDay d) \<le> d" "d < DayFromYear (YearFromDay d) + DaysInYear (YearFromDay d)"
  using year_search_bracket [OF year_down_below, of "1970 + d div 365" d]
  by (simp_all add: YearFromDay_def DayFromYear_Suc)

lemma year_unique:
  assumes "DayFromYear z \<le> d" and "d < DayFromYear z + DaysInYear z"
  shows "YearFromDay d = z"
proof (rule ccontr)
  assume ne: "YearFromDay d \<noteq> z"
  let ?y = "YearFromDay d"
  show False
  proof (cases "?y < z")
    case True
    then have "DayFromYear (?y + 1) \<le> DayFromYear z"
      by (intro DayFromYear_mono) simp
    with assms(1) year_bracket(2) [of d] show False
      by (simp add: DayFromYear_Suc)
  next
    case False
    with ne have "DayFromYear (z + 1) \<le> DayFromYear ?y"
      by (intro DayFromYear_mono) simp
    with assms(2) year_bracket(1) [of d] show False
      by (simp add: DayFromYear_Suc)
  qed
qed

lemma leap_year_iff: "leap_year y \<longleftrightarrow> DaysInYear y = 366"
  using mod_400_100 [of y] mod_100_4 [of y]
  by (auto simp: leap_year_def DaysInYear_def)

lemma DaysInYear_cases: "DaysInYear y = 365 \<or> DaysInYear y = 366"
  by (simp add: DaysInYear_def)


lemma table_step0:
  assumes "0 \<le> n" and "n + 1 < 365"
  shows "(month_of (n + 1) 0, date_of (n + 1) 0) =
     (if date_of n 0 < (if month_of n 0 = 1 then 28
                        else if month_of n 0 = 3 \<or> month_of n 0 = 5 \<or> month_of n 0 = 8
                                \<or> month_of n 0 = 10 then 30 else 31)
      then (month_of n 0, date_of n 0 + 1)
      else (month_of n 0 + 1, 1))
     \<and> (date_of n 0 < 31 \<or> month_of n 0 < 11)"
  using assms unfolding date_of_def month_of_def Let_def
  by (simp split: if_splits)


lemma table_step1:
  assumes "0 \<le> n" and "n + 1 < 366"
  shows "(month_of (n + 1) 1, date_of (n + 1) 1) =
     (if date_of n 1 < (if month_of n 1 = 1 then 29
                        else if month_of n 1 = 3 \<or> month_of n 1 = 5 \<or> month_of n 1 = 8
                                \<or> month_of n 1 = 10 then 30 else 31)
      then (month_of n 1, date_of n 1 + 1)
      else (month_of n 1 + 1, 1))
     \<and> (date_of n 1 < 31 \<or> month_of n 1 < 11)"
  using assms unfolding date_of_def month_of_def Let_def
  by (simp split: if_splits)

lemma table_last:
  assumes "0 \<le> L"
  shows "month_of (364 + L) L = 11" "date_of (364 + L) L = 31"
  using assms by (simp_all add: month_of_def date_of_def)

lemma table_first: "month_of 0 L = 0" "date_of 0 L = 1"
  by (simp_all add: month_of_def date_of_def)

lemma civil_next: "civil (d + 1) = next_date (civil d)"
proof -
  define y where "y = YearFromDay d"
  define n where "n = d - DayFromYear y"
  have lo: "DayFromYear y \<le> d" and hi: "d < DayFromYear y + DaysInYear y"
    using year_bracket [of d] by (simp_all add: y_def)
  have n0: "0 \<le> n" and n1: "n < DaysInYear y"
    using lo hi by (simp_all add: n_def)
  have dwy: "DayWithinYear d = n"
    by (simp add: DayWithinYear_def n_def y_def)
  show ?thesis
  proof (cases "n + 1 < DaysInYear y")
    case True
    have y': "YearFromDay (d + 1) = y"
      by (rule year_unique) (use lo True in \<open>simp_all add: n_def\<close>)
    have dwy': "DayWithinYear (d + 1) = n + 1"
      by (simp add: DayWithinYear_def y' n_def)
    have L': "InLeapYear (d + 1) = InLeapYear d"
      by (simp add: InLeapYear_def y' y_def)
    show ?thesis
    proof (cases "DaysInYear y = 366")
      case leap: True
      then have L: "InLeapYear d = 1" and ly: "leap_year y"
        by (simp_all add: InLeapYear_def y_def leap_year_iff)
      from table_step1 [OF n0] True leap show ?thesis
        by (auto simp: civil_def getFullYear_def getMonth_def getDate_def dwy dwy' L' L y'
              next_date_def month_length_def ly simp flip: y_def split: if_splits)
    next
      case False
      with DaysInYear_cases [of y] have c: "DaysInYear y = 365" by simp
      then have L: "InLeapYear d = 0" and ly: "\<not> leap_year y"
        by (simp_all add: InLeapYear_def y_def leap_year_iff)
      from table_step0 [OF n0] True c show ?thesis
        by (auto simp: civil_def getFullYear_def getMonth_def getDate_def dwy dwy' L' L y'
              next_date_def month_length_def ly simp flip: y_def split: if_splits)
    qed
  next
    case False
    with n1 have last: "n + 1 = DaysInYear y" by simp
    then have d': "d + 1 = DayFromYear (y + 1)"
      by (simp add: n_def DayFromYear_Suc)
    have y': "YearFromDay (d + 1) = y + 1"
      by (rule year_unique) (use d' DaysInYear_bounds(1) [of "y + 1"] in simp_all)
    have "DayWithinYear (d + 1) = d + 1 - DayFromYear (y + 1)"
      unfolding DayWithinYear_def y' ..
    then have dwy': "DayWithinYear (d + 1) = 0"
      by (simp only: d' diff_self)
    have nL: "n = 364 + InLeapYear d"
      using last DaysInYear_cases [of y] by (auto simp: InLeapYear_def y_def)
    have "civil (d + 1) = (y + 1, 0, 1)"
      by (simp add: civil_def getFullYear_def getMonth_def getDate_def dwy' y' table_first)
    moreover have "0 \<le> InLeapYear d"
      by (simp add: InLeapYear_def)
    then have "civil d = (y, 11, 31)"
      by (simp add: civil_def getFullYear_def getMonth_def getDate_def dwy nL table_last flip: y_def)
    ultimately show ?thesis
      by (simp add: next_date_def month_length_def)
  qed
qed

lemma YearFromDay_0: "YearFromDay 0 = 1970"
  by (rule year_unique) (simp_all add: DayFromYear_def DaysInYear_def)

lemma civil_epoch: "civil 0 = (1970, 0, 1)"
  by (simp add: civil_def getFullYear_def getMonth_def getDate_def DayWithinYear_def YearFromDay_0
        table_first DayFromYear_def)


lemma civil_funpow: "civil (t + int i) = (next_date ^^ i) (civil t)"
proof (induction i)
  case 0
  show ?case by simp
next
  case (Suc i)
  have "t + int (Suc i) = (t + int i) + 1"
    by simp
  then have "civil (t + int (Suc i)) = civil ((t + int i) + 1)"
    by (rule arg_cong)
  also have "\<dots> = next_date (civil (t + int i))"
    by (rule civil_next)
  finally show ?case
    by (simp add: Suc.IH)
qed

lemma getDay_next: "getDay (n + 1) = (getDay n + 1) mod 7"
  by (simp add: getDay_def mod_simps add.commute add.left_commute)

lemma Day_bracket: "Day t * 86400000 \<le> t" "t < (Day t + 1) * 86400000"
proof -
  have "t = 86400000 * (t div 86400000) + t mod 86400000"
    by simp
  moreover have "0 \<le> t mod 86400000" "t mod 86400000 < 86400000"
    by simp_all
  ultimately show "Day t * 86400000 \<le> t" "t < (Day t + 1) * 86400000"
    by (simp_all add: Day_def msPerDay_def algebra_simps)
qed

lemma civil_20760: "civil 20760 = (2026, 10, 3)"
proof -
  have y: "YearFromDay 20760 = 2026"
    by (rule year_unique) (simp_all add: DayFromYear_def DaysInYear_def)
  show ?thesis
    by (simp add: civil_def getFullYear_def getMonth_def getDate_def DayWithinYear_def
          InLeapYear_def y DayFromYear_def DaysInYear_def month_of_def date_of_def)
qed

lemma civil_19781: "civil 19781 = (2024, 1, 28)"
proof -
  have y: "YearFromDay 19781 = 2024"
    by (rule year_unique) (simp_all add: DayFromYear_def DaysInYear_def)
  show ?thesis
    by (simp add: civil_def getFullYear_def getMonth_def getDate_def DayWithinYear_def
          InLeapYear_def y DayFromYear_def DaysInYear_def month_of_def date_of_def)
qed

lemma show_int_values:
  "show_int 1 = ''1''" "show_int 2 = ''2''" "show_int 3 = ''3''" "show_int 4 = ''4''"
  "show_int 5 = ''5''" "show_int 6 = ''6''" "show_int 7 = ''7''" "show_int 28 = ''28''"
  "show_int 29 = ''29''" "show_int 2024 = ''2024''" "show_int 2026 = ''2026''"
  by code_simp+


lemma list_of_five:
  assumes "length xs = 5"
  shows "xs = [xs ! 0, xs ! 1, xs ! 2, xs ! 3, xs ! 4]"
proof (rule nth_equalityI)
  show "length xs = length [xs ! 0, xs ! 1, xs ! 2, xs ! 3, xs ! 4]"
    by (simp add: assms)
next
  fix i assume "i < length xs"
  then have "i = 0 \<or> i = 1 \<or> i = 2 \<or> i = 3 \<or> i = 4"
    using assms by auto
  then show "xs ! i = [xs ! 0, xs ! 1, xs ! 2, xs ! 3, xs ! 4] ! i"
    by auto
qed

lemma dayInfo_funpow:
  "dayInfo (t + int i) =
     ([''Sunday'', ''Monday'', ''Tuesday'', ''Wednesday'', ''Thursday'', ''Friday'', ''Saturday'']
        ! nat (getDay (t + int i)),
      (case (next_date ^^ i) (civil t) of
         (y, m, d) \<Rightarrow>
           [''Jan'', ''Feb'', ''Mar'', ''Apr'', ''May'', ''Jun'', ''Jul'', ''Aug'', ''Sep'', ''Oct'',
            ''Nov'', ''Dec''] ! nat m @ '' '' @ show_int d @ '', '' @ show_int y))"
  unfolding civil_funpow [symmetric]
  by (simp add: dayInfo_def civil_def days_def months_def)

lemma five_days_20760:
  "(next_date ^^ 0) (2026, 10, 3) = (2026, 10, 3)"
  "(next_date ^^ 1) (2026, 10, 3) = (2026, 10, 4)"
  "(next_date ^^ 2) (2026, 10, 3) = (2026, 10, 5)"
  "(next_date ^^ 3) (2026, 10, 3) = (2026, 10, 6)"
  "(next_date ^^ 4) (2026, 10, 3) = (2026, 10, 7)"
  "next_date (2026, 10, 3) = (2026, 10, 4)"
  by (simp_all add: eval_nat_numeral next_date_def month_length_def)

lemma five_days_19781:
  "(next_date ^^ 0) (2024, 1, 28) = (2024, 1, 28)"
  "(next_date ^^ 1) (2024, 1, 28) = (2024, 1, 29)"
  "(next_date ^^ 2) (2024, 1, 28) = (2024, 2, 1)"
  "(next_date ^^ 3) (2024, 1, 28) = (2024, 2, 2)"
  "(next_date ^^ 4) (2024, 1, 28) = (2024, 2, 3)"
  "next_date (2024, 1, 28) = (2024, 1, 29)"
  by (simp_all add: eval_nat_numeral next_date_def month_length_def leap_year_def)

section \<open>Properties of the fallback planner\<close>


lemma map_throwing_Inr:
  assumes "\<And>x. x \<in> set xs \<Longrightarrow> f x = Inr (g x)"
  shows "map_throwing f xs = Inr (map g xs)"
  using assms by (induction xs) simp_all

lemma elem_at_mod:
  "xs \<noteq> [] \<Longrightarrow> elem_at xs (i mod length xs) = Inr (xs ! (i mod length xs))"
  by (simp add: elem_at_def)

lemma availableSubjects_of_nonempty: "availableSubjects_of today xs \<noteq> []"
  by (simp add: availableSubjects_of_def)

lemma studyPlanDay_returns:
  assumes "avail \<noteq> []"
  shows "\<exists>d. studyPlanDay today data avail di i = Inr d"
  using assms by (simp add: studyPlanDay_def elem_at_mod Let_def)

lemma studyPlanDay_multi:
  assumes "avail \<noteq> []" and "isMultiSubjectDay i avail"
    and "studyPlanDay today data avail di i = Inr d"
  shows "subject d = name (avail ! (i mod length avail)) @ '', ''
            @ name (avail ! ((i + 1) mod length avail))"
    and "hours d = dailyHours data"
    and "priority d =
           (let priority1 = getPriorityByDeadline today (avail ! (i mod length avail));
                priority2 = getPriorityByDeadline today (avail ! ((i + 1) mod length avail))
            in if priority1 = High \<or> priority2 = High then High
               else if priority1 = Medium \<or> priority2 = Medium then Medium else Low)"
  using assms by (auto simp: studyPlanDay_def elem_at_mod Let_def)

lemma studyPlanDay_single:
  assumes "avail \<noteq> []" and "\<not> isMultiSubjectDay i avail"
    and "studyPlanDay today data avail di i = Inr d"
  shows "subject d = name (avail ! (i mod length avail))"
    and "priority d = getPriorityByDeadline today (avail ! (i mod length avail))"
    and "hours d = real_of_int \<lceil>dailyHours data * (if priority d = High then 0.8 else 0.5)\<rceil>"
    and "notes_s d = getSubjectNotes (name (avail ! (i mod length avail))) @ assessmentSuffix i"
    and "resources d = Some (getSubjectResources (name (avail ! (i mod length avail))))"
  using assms by (auto simp: studyPlanDay_def elem_at_mod Let_def)

lemma studyPlanDay_dayInfo:
  assumes "studyPlanDay today data avail di i = Inr d"
  shows "(day d, date d) = di"
  using assms by (auto simp: studyPlanDay_def Let_def split: if_splits sum.splits)

lemma length_getNextFiveDays: "length (getNextFiveDays t) = 5"
  by (simp add: getNextFiveDays_def)

lemma nth_getNextFiveDays: "i < 5 \<Longrightarrow> getNextFiveDays t ! i = dayInfo (t + int i)"
  by (simp add: getNextFiveDays_def setDate_def del: upt_Suc)

lemma fallback_days:
  "\<exists>r. generateFallbackStudyPlan env data = Inr r
           \<and> length (studyPlan r) = 5
           \<and> motivationalTip r = motivationalTip_text
           \<and> (\<forall>i<5. studyPlanDay (now env) data (planSubjects env data)
                        (dayInfo (Day (now env + tza env) + int i)) i = Inr (studyPlan r ! i))"
proof -
  define avail where "avail = planSubjects env data"
  let ?f = "\<lambda>(dayInfo', index). studyPlanDay (now env) data avail dayInfo' index"
  let ?g = "\<lambda>x. projr (?f x)"
  let ?xs = "zip (getNextFiveDays (Day (now env + tza env))) [0..<5]"
  have ne: "avail \<noteq> []"
    by (simp add: avail_def planSubjects_def availableSubjects_of_nonempty)
  have each: "?f x = Inr (?g x)" for x
    using studyPlanDay_returns [OF ne, of "now env" data "fst x" "snd x"]
    by (cases x) auto
  have run: "map_throwing ?f ?xs = Inr (map ?g ?xs)"
    by (rule map_throwing_Inr) (rule each)
  have res: "generateFallbackStudyPlan env data
      = Inr \<lparr>studyPlan = map ?g ?xs, motivationalTip = motivationalTip_text\<rparr>"
    using run
    by (simp add: generateFallbackStudyPlan_def Let_def avail_def planSubjects_def
          length_getNextFiveDays del: upt_Suc)
  have nth: "?f (?xs ! i) = Inr (map ?g ?xs ! i)" if "i < 5" for i
    using that each [of "?xs ! i"] by (simp add: length_getNextFiveDays del: upt_Suc)
  have "studyPlanDay (now env) data avail (dayInfo (Day (now env + tza env) + int i)) i
          = Inr (map ?g ?xs ! i)" if "i < 5" for i
    using nth [OF that] that
    by (simp add: length_getNextFiveDays nth_getNextFiveDays del: upt_Suc)
  with res show ?thesis
    by (simp add: length_getNextFiveDays avail_def del: upt_Suc)
qed


lemma sortSubjects_Nil: "sortSubjects t [] = []"
  by (simp add: sortSubjects_def array_sort_def)

lemma fallback_returns: "\<exists>r. generateFallbackStudyPlan env data = Inr r"
  using fallback_days [of env data] by blast

lemma ceiling_fraction_le:
  assumes "0 < n" "0 \<le> c" "c \<le> 1"
  shows "real_of_int \<lceil>real_of_int n * c\<rceil> \<le> real_of_int n"
proof -
  have "real_of_int n * c \<le> real_of_int n"
    using assms by (simp add: mult_left_le)
  then have "\<lceil>real_of_int n * c\<rceil> \<le> n"
    by (simp add: ceiling_le_iff)
  then show ?thesis by simp
qed

lemma getDaysUntilDeadline_cases:
  "getDaysUntilDeadline today dl = Infinity \<and> dl = None
   \<or> (\<exists>n. getDaysUntilDeadline today dl = Fin n \<and> 0 \<le> n \<and> dl \<noteq> None)"
  by (cases dl) (simp_all add: getDaysUntilDeadline_def Let_def)


lemma general_study_notes:
  "getSubjectNotes ''General Study'' =
     ''Review course materials using the Feynman technique, create summary notes with mind maps, and practice retrieval with self-quizzing''"
  by code_simp

section \<open>Properties of the sort\<close>

lemma compare_pos_iff:
  "js_pos (compareByDeadline today x y) \<longleftrightarrow> daysKey today y < daysKey today x"
  using getDaysUntilDeadline_cases [of today "deadline x"]
    getDaysUntilDeadline_cases [of today "deadline y"]
  by (auto simp: compareByDeadline_def daysKey_def days_enat_def Let_def)

lemma insertBy_insort_key:
  "insertBy (compareByDeadline today) x ys = insort_key (daysKey today) x ys"
  by (induction ys) (auto simp: compare_pos_iff)

lemma sortSubjects_sort_key: "sortSubjects today xs = sort_key (daysKey today) xs"
proof -
  have "insertBy (compareByDeadline today) = insort_key (daysKey today)"
    by (intro ext) (rule insertBy_insort_key)
  then show ?thesis
    by (simp add: sortSubjects_def array_sort_def sort_key_def)
qed

lemma sorted_nth_less:
  assumes "sorted (map f xs)" "i < length xs" "j < length xs" "f (xs ! i) < f (xs ! j)"
  shows "i < j"
proof (rule ccontr)
  assume "\<not> i < j"
  then have "j \<le> i" by simp
  with assms(1,2) have "map f xs ! j \<le> map f xs ! i"
    by (simp add: sorted_nth_mono del: nth_map)
  with assms(2,3,4) show False by simp
qed

lemma daysKey_None: "deadline s = None \<Longrightarrow> daysKey today s = \<infinity>"
  by (simp add: daysKey_def days_enat_def getDaysUntilDeadline_def)

lemma daysKey_Some: "deadline s = Some d \<Longrightarrow> daysKey today s \<noteq> \<infinity>"
  by (simp add: daysKey_def days_enat_def getDaysUntilDeadline_def Let_def)

lemma getDays_mono:
  assumes "da \<le> db"
  shows "days_enat (getDaysUntilDeadline today (Some da))
       \<le> days_enat (getDaysUntilDeadline today (Some db))"
proof -
  define a where "a = \<lceil>real_of_int (da - today) / real_of_int msPerDay\<rceil>"
  define b where "b = \<lceil>real_of_int (db - today) / real_of_int msPerDay\<rceil>"
  have "a \<le> b"
    unfolding a_def b_def using assms
    by (intro ceiling_mono divide_right_mono) (simp_all add: msPerDay_def)
  moreover have "getDaysUntilDeadline today (Some da) = (if a > 0 then Fin a else Fin 0)"
    by (simp add: getDaysUntilDeadline_def Let_def a_def)
  moreover have "getDaysUntilDeadline today (Some db) = (if b > 0 then Fin b else Fin 0)"
    by (simp add: getDaysUntilDeadline_def Let_def b_def)
  ultimately show ?thesis
    by (auto simp: days_enat_def)
qed

lemma getDays_passed:
  assumes "d \<le> today"
  shows "getDaysUntilDeadline today (Some d) = Fin 0"
proof -
  have "real_of_int (d - today) / real_of_int msPerDay \<le> 0"
    using assms by (simp add: msPerDay_def divide_le_0_iff)
  then have "\<lceil>real_of_int (d - today) / real_of_int msPerDay\<rceil> \<le> 0"
    by (simp add: ceiling_le_iff)
  then show ?thesis
    by (simp add: getDaysUntilDeadline_def Let_def)
qed

lemma getDaysUntilDeadline_div:
  "getDaysUntilDeadline today (Some d) =
     (if - ((today - d) div msPerDay) > 0 then Fin (- ((today - d) div msPerDay)) else Fin 0)"
proof -
  have "\<lceil>real_of_int (d - today) / real_of_int msPerDay\<rceil> = - ((today - d) div msPerDay)"
    using ceiling_divide_eq_div [of "d - today" msPerDay] by simp
  then show ?thesis
    unfolding getDaysUntilDeadline_def Let_def option.case by presburger
qed

lemma getDaysUntilDeadline_None: "getDaysUntilDeadline today None = Infinity"
  by (simp add: getDaysUntilDeadline_def)

lemma length_sortSubjects: "length (sortSubjects today xs) = length xs"
  by (simp add: sortSubjects_sort_key)

lemma sortSubjects_three:
  "sortSubjects (now env0) (subjects three_subjects) =
     [\<lparr>id_s = ''3'', name = ''Math'', deadline = Some 1794096000000\<rparr>,
      \<lparr>id_s = ''2'', name = ''Art'', deadline = Some 1794528000000\<rparr>,
      \<lparr>id_s = ''1'', name = ''Essay'', deadline = None\<rparr>]"
  by (simp add: env0_def three_subjects_def sortSubjects_def array_sort_def
        compareByDeadline_def getDaysUntilDeadline_div getDaysUntilDeadline_None msPerDay_def)

lemma planSubjects_three:
  "planSubjects env0 three_subjects =
     [\<lparr>id_s = ''3'', name = ''Math'', deadline = Some 1794096000000\<rparr>,
      \<lparr>id_s = ''2'', name = ''Art'', deadline = Some 1794528000000\<rparr>,
      \<lparr>id_s = ''1'', name = ''Essay'', deadline = None\<rparr>]"
  by (simp add: planSubjects_def sortSubjects_three availableSubjects_of_def)

text \<open>
  Claim C7, as amended. The sort, which both \<^verbatim>\<open>generateStudyPlan\<close> and the fallback
  planner apply to the subject list, returns a permutation of the list that ascends in the
  days until the deadline and keeps the input order of subjects with equal days. A missing
  deadline counts as infinitely many days, so such a subject stands behind every subject
  that has a deadline; a deadline that has passed counts as zero days. An earlier deadline
  never has more days than a later one, and of two subjects with different days the one
  with fewer days stands first. (Two deadlines with the same number of days keep their
  input order, whichever is the earlier.)
\<close>

theorem sortSubjects_by_days:
  "mset (sortSubjects today xs) = mset xs
   \<and> sorted (map (daysKey today) (sortSubjects today xs))
   \<and> (\<forall>k. filter (\<lambda>s. daysKey today s = k) (sortSubjects today xs)
           = filter (\<lambda>s. daysKey today s = k) xs)
   \<and> getDaysUntilDeadline today None = Infinity
   \<and> (\<forall>d. d \<le> today \<longrightarrow> getDaysUntilDeadline today (Some d) = Fin 0)
   \<and> (\<forall>i j. i < length xs \<and> j < length xs
          \<and> deadline (sortSubjects today xs ! i) \<noteq> None
          \<and> deadline (sortSubjects today xs ! j) = None \<longrightarrow> i < j)
   \<and> (\<forall>da db. da \<le> db \<longrightarrow>
          days_enat (getDaysUntilDeadline today (Some da))
            \<le> days_enat (getDaysUntilDeadline today (Some db)))
   \<and> (\<forall>i j. i < length xs \<and> j < length xs
          \<and> daysKey today (sortSubjects today xs ! i) < daysKey today (sortSubjects today xs ! j)
          \<longrightarrow> i < j)"
proof -
  let ?ys = "sortSubjects today xs"
  have ys: "?ys = sort_key (daysKey today) xs"
    by (rule sortSubjects_sort_key)
  have perm: "mset ?ys = mset xs"
    by (simp add: ys)
  have len: "length ?ys = length xs"
    by (simp add: ys)
  have srt: "sorted (map (daysKey today) ?ys)"
    by (simp add: ys)
  have stable: "filter (\<lambda>s. daysKey today s = k) ?ys = filter (\<lambda>s. daysKey today s = k) xs" for k
    by (simp add: ys sort_key_stable)
  have pos: "i < j" if "i < length xs" "j < length xs"
      "daysKey today (?ys ! i) < daysKey today (?ys ! j)" for i j
    using sorted_nth_less [OF srt] that by (simp add: len)
  have missing: "i < j" if "i < length xs" "j < length xs"
      "deadline (?ys ! i) \<noteq> None" "deadline (?ys ! j) = None" for i j
  proof -
    from that(3) obtain d where "deadline (?ys ! i) = Some d" by auto
    then have "daysKey today (?ys ! i) \<noteq> \<infinity>" by (rule daysKey_Some)
    moreover have "daysKey today (?ys ! j) = \<infinity>" using that(4) by (rule daysKey_None)
    ultimately have "daysKey today (?ys ! i) < daysKey today (?ys ! j)" by auto
    with that(1,2) show ?thesis by (rule pos)
  qed
  have none: "getDaysUntilDeadline today None = Infinity"
    by (simp add: getDaysUntilDeadline_def)
  from perm srt stable none getDays_passed missing getDays_mono pos show ?thesis
    by blast
qed

theorem sortSubjects_by_days_witness:
  "sortSubjects (now env0) (subjects three_subjects) =
     [\<lparr>id_s = ''3'', name = ''Math'', deadline = Some 1794096000000\<rparr>,
      \<lparr>id_s = ''2'', name = ''Art'', deadline = Some 1794528000000\<rparr>,
      \<lparr>id_s = ''1'', name = ''Essay'', deadline = None\<rparr>]
   \<and> sorted (map (daysKey (now env0)) (sortSubjects (now env0) (subjects three_subjects)))
   \<and> (0::int) \<le> now env0
   \<and> getDaysUntilDeadline (now env0) (Some 0) = Fin 0"
proof -
  have "(0::int) \<le> now env0"
    by (simp add: env0_def)
  with sortSubjects_by_days [of "now env0" "subjects three_subjects"]
  have "sorted (map (daysKey (now env0)) (sortSubjects (now env0) (subjects three_subjects)))
    \<and> (0::int) \<le> now env0 \<and> getDaysUntilDeadline (now env0) (Some 0) = Fin 0"
    by blast
  with sortSubjects_three show ?thesis
    by blast
qed

theorem sortSubjects_earlier_deadline_counterexample:
  "sortSubjects 0
     [\<lparr>id_s = ''1'', name = ''A'', deadline = Some 7200000\<rparr>,
      \<lparr>id_s = ''2'', name = ''B'', deadline = Some 3600000\<rparr>] ! 0
     = \<lparr>id_s = ''1'', name = ''A'', deadline = Some 7200000\<rparr>
   \<and> sortSubjects 0
     [\<lparr>id_s = ''1'', name = ''A'', deadline = Some 7200000\<rparr>,
      \<lparr>id_s = ''2'', name = ''B'', deadline = Some 3600000\<rparr>] ! 1
     = \<lparr>id_s = ''2'', name = ''B'', deadline = Some 3600000\<rparr>
   \<and> (3600000::int) < 7200000"
  by (simp add: sortSubjects_def array_sort_def compareByDeadline_def
        getDaysUntilDeadline_div msPerDay_def)

section \<open>The plan of the fallback planner\<close>

text \<open>
  Claim C3. For every subject list, the empty one too, and every amount of daily hours,
  the fallback planner returns (it does not throw) a plan of exactly five days. Today is
  the local day the clock's time lies in; the day names are those of today and the four
  days after it, and the dates are today's date and the four dates that follow it in the
  calendar, each written as month name, day of the month and year. The calendar is the
  one in which 1 January 1970, a Thursday, is day 0 and each day has the date and the
  weekday that follow those of the day before. For the empty subject list the planner
  works on the single placeholder subject ``General Study'', the subject of all five days.
\<close>

theorem fallback_total_five_days:
  "\<exists>r. generateFallbackStudyPlan env data = Inr r
     \<and> length (studyPlan r) = 5
     \<and> Day (now env + tza env) * 86400000 \<le> now env + tza env
     \<and> now env + tza env < (Day (now env + tza env) + 1) * 86400000
     \<and> civil 0 = (1970, 0, 1) \<and> getDay 0 = 4
     \<and> (\<forall>n. civil (n + 1) = next_date (civil n) \<and> getDay (n + 1) = (getDay n + 1) mod 7)
     \<and> (\<forall>i<5.
          day (studyPlan r ! i) =
            [''Sunday'', ''Monday'', ''Tuesday'', ''Wednesday'', ''Thursday'', ''Friday'',
             ''Saturday''] ! nat (getDay (Day (now env + tza env) + int i))
          \<and> date (studyPlan r ! i) =
            (case (next_date ^^ i) (civil (Day (now env + tza env))) of
               (y, m, d) \<Rightarrow>
                 [''Jan'', ''Feb'', ''Mar'', ''Apr'', ''May'', ''Jun'', ''Jul'', ''Aug'', ''Sep'',
                  ''Oct'', ''Nov'', ''Dec''] ! nat m @ '' '' @ show_int d @ '', '' @ show_int y))
     \<and> (subjects data = [] \<longrightarrow>
          planSubjects env data
            = [\<lparr>id_s = ''1'', name = ''General Study'', deadline = Some (now env)\<rparr>]
          \<and> map subject (studyPlan r) = replicate 5 ''General Study'')"
proof -
  let ?t = "Day (now env + tza env)"
  obtain r where r: "generateFallbackStudyPlan env data = Inr r"
    and len: "length (studyPlan r) = 5"
    and days: "\<And>i. i < 5 \<Longrightarrow> studyPlanDay (now env) data (planSubjects env data)
                 (dayInfo (?t + int i)) i = Inr (studyPlan r ! i)"
    using fallback_days [of env data] by blast
  have ne: "planSubjects env data \<noteq> []"
    by (simp add: planSubjects_def availableSubjects_of_nonempty)
  have today: "?t * 86400000 \<le> now env + tza env" "now env + tza env < (?t + 1) * 86400000"
    by (rule Day_bracket)+
  have cal: "civil (n + 1) = next_date (civil n) \<and> getDay (n + 1) = (getDay n + 1) mod 7" for n
    by (simp only: civil_next getDay_next)
  have anchor: "civil 0 = (1970, 0, 1)" "getDay 0 = 4"
    by (simp_all add: civil_epoch getDay_def)
  have dates: "day (studyPlan r ! i) =
            [''Sunday'', ''Monday'', ''Tuesday'', ''Wednesday'', ''Thursday'', ''Friday'',
             ''Saturday''] ! nat (getDay (?t + int i))
          \<and> date (studyPlan r ! i) =
            (case (next_date ^^ i) (civil ?t) of
               (y, m, d) \<Rightarrow>
                 [''Jan'', ''Feb'', ''Mar'', ''Apr'', ''May'', ''Jun'', ''Jul'', ''Aug'', ''Sep'',
                  ''Oct'', ''Nov'', ''Dec''] ! nat m @ '' '' @ show_int d @ '', '' @ show_int y)"
    if i: "i < 5" for i
  proof -
    have "(day (studyPlan r ! i), date (studyPlan r ! i)) = dayInfo (?t + int i)"
      by (rule studyPlanDay_dayInfo [OF days [OF i]])
    then show ?thesis
      unfolding dayInfo_funpow by simp
  qed
  have empty: "planSubjects env data
            = [\<lparr>id_s = ''1'', name = ''General Study'', deadline = Some (now env)\<rparr>]
          \<and> map subject (studyPlan r) = replicate 5 ''General Study''"
    if e: "subjects data = []"
  proof
    show ps: "planSubjects env data
            = [\<lparr>id_s = ''1'', name = ''General Study'', deadline = Some (now env)\<rparr>]"
      by (simp add: planSubjects_def e sortSubjects_Nil availableSubjects_of_def)
    have single: "\<not> isMultiSubjectDay i (planSubjects env data)" for i
      by (simp add: ps isMultiSubjectDay_def)
    show "map subject (studyPlan r) = replicate 5 ''General Study''"
    proof (rule nth_equalityI)
      show "length (map subject (studyPlan r)) = length (replicate 5 ''General Study'')"
        by (simp add: len)
    next
      fix i assume "i < length (map subject (studyPlan r))"
      then have i: "i < 5" by (simp add: len)
      from studyPlanDay_single(1) [OF ne single days [OF i]] i
      show "map subject (studyPlan r) ! i = replicate 5 ''General Study'' ! i"
        by (simp add: len ps)
    qed
  qed
  from r len today anchor cal dates empty show ?thesis
    by blast
qed

theorem fallback_total_five_days_witness:
  "subjects no_subjects = []
   \<and> (\<exists>r. generateFallbackStudyPlan env0 no_subjects = Inr r
          \<and> map (\<lambda>d. (day d, date d)) (studyPlan r) =
              [(''Tuesday'', ''Nov 3, 2026''), (''Wednesday'', ''Nov 4, 2026''),
               (''Thursday'', ''Nov 5, 2026''), (''Friday'', ''Nov 6, 2026''),
               (''Saturday'', ''Nov 7, 2026'')]
          \<and> map subject (studyPlan r) = replicate 5 ''General Study'')
   \<and> (\<exists>r. generateFallbackStudyPlan env_leap three_subjects = Inr r
          \<and> map (\<lambda>d. (day d, date d)) (studyPlan r) =
              [(''Wednesday'', ''Feb 28, 2024''), (''Thursday'', ''Feb 29, 2024''),
               (''Friday'', ''Mar 1, 2024''), (''Saturday'', ''Mar 2, 2024''),
               (''Sunday'', ''Mar 3, 2024'')])"
proof -
  have e: "subjects no_subjects = []"
    by (simp add: no_subjects_def)
  have t0: "Day (now env0 + tza env0) = 20760"
    by (simp add: Day_def env0_def msPerDay_def)
  have t1: "Day (now env_leap + tza env_leap) = 19781"
    by (simp add: Day_def env_leap_def msPerDay_def)
  obtain r where r: "generateFallbackStudyPlan env0 no_subjects = Inr r"
    and len: "length (studyPlan r) = 5"
    and dates: "\<And>i. i < 5 \<Longrightarrow>
          day (studyPlan r ! i) =
            [''Sunday'', ''Monday'', ''Tuesday'', ''Wednesday'', ''Thursday'', ''Friday'',
             ''Saturday''] ! nat (getDay (20760 + int i))
          \<and> date (studyPlan r ! i) =
            (case (next_date ^^ i) (civil 20760) of
               (y, m, d) \<Rightarrow>
                 [''Jan'', ''Feb'', ''Mar'', ''Apr'', ''May'', ''Jun'', ''Jul'', ''Aug'', ''Sep'',
                  ''Oct'', ''Nov'', ''Dec''] ! nat m @ '' '' @ show_int d @ '', '' @ show_int y)"
    and subj: "map subject (studyPlan r) = replicate 5 ''General Study''"
    using fallback_total_five_days [of env0 no_subjects] e unfolding t0 by blast
  obtain r' where r': "generateFallbackStudyPlan env_leap three_subjects = Inr r'"
    and len': "length (studyPlan r') = 5"
    and dates': "\<And>i. i < 5 \<Longrightarrow>
          day (studyPlan r' ! i) =
            [''Sunday'', ''Monday'', ''Tuesday'', ''Wednesday'', ''Thursday'', ''Friday'',
             ''Saturday''] ! nat (getDay (19781 + int i))
          \<and> date (studyPlan r' ! i) =
            (case (next_date ^^ i) (civil 19781) of
               (y, m, d) \<Rightarrow>
                 [''Jan'', ''Feb'', ''Mar'', ''Apr'', ''May'', ''Jun'', ''Jul'', ''Aug'', ''Sep'',
                  ''Oct'', ''Nov'', ''Dec''] ! nat m @ '' '' @ show_int d @ '', '' @ show_int y)"
    using fallback_total_five_days [of env_leap three_subjects] unfolding t1 by blast
  have a: "map (\<lambda>d. (day d, date d)) (studyPlan r) =
              [(''Tuesday'', ''Nov 3, 2026''), (''Wednesday'', ''Nov 4, 2026''),
               (''Thursday'', ''Nov 5, 2026''), (''Friday'', ''Nov 6, 2026''),
               (''Saturday'', ''Nov 7, 2026'')]"
    using dates [of 0] dates [of 1] dates [of 2] dates [of 3] dates [of 4]
    by (subst list_of_five [OF len])
      (simp add: civil_20760 five_days_20760 getDay_def show_int_values)
  have b: "map (\<lambda>d. (day d, date d)) (studyPlan r') =
              [(''Wednesday'', ''Feb 28, 2024''), (''Thursday'', ''Feb 29, 2024''),
               (''Friday'', ''Mar 1, 2024''), (''Saturday'', ''Mar 2, 2024''),
               (''Sunday'', ''Mar 3, 2024'')]"
    using dates' [of 0] dates' [of 1] dates' [of 2] dates' [of 3] dates' [of 4]
    by (subst list_of_five [OF len'])
      (simp add: civil_19781 five_days_19781 getDay_def show_int_values)
  have first: "\<exists>r. generateFallbackStudyPlan env0 no_subjects = Inr r
          \<and> map (\<lambda>d. (day d, date d)) (studyPlan r) =
              [(''Tuesday'', ''Nov 3, 2026''), (''Wednesday'', ''Nov 4, 2026''),
               (''Thursday'', ''Nov 5, 2026''), (''Friday'', ''Nov 6, 2026''),
               (''Saturday'', ''Nov 7, 2026'')]
          \<and> map subject (studyPlan r) = replicate 5 ''General Study''"
    using r a subj by (intro exI [of _ r] conjI)
  have second: "\<exists>r. generateFallbackStudyPlan env_leap three_subjects = Inr r
          \<and> map (\<lambda>d. (day d, date d)) (studyPlan r) =
              [(''Wednesday'', ''Feb 28, 2024''), (''Thursday'', ''Feb 29, 2024''),
               (''Friday'', ''Mar 1, 2024''), (''Saturday'', ''Mar 2, 2024''),
               (''Sunday'', ''Mar 3, 2024'')]"
    using r' b by (intro exI [of _ r'] conjI)
  from e first second show ?thesis
    by (intro conjI)
qed

text \<open>
  Claim C4. When the daily hours are a positive integer, every day of the plan of the
  fallback planner, multi-subject days included, has hours that do not exceed them.
\<close>

theorem fallback_hours_within_budget:
  assumes "dailyHours data = real_of_int n" and "0 < n"
  shows "\<exists>r. generateFallbackStudyPlan env data = Inr r
           \<and> (\<forall>d \<in> set (studyPlan r). hours d \<le> dailyHours data)"
proof -
  obtain r where r: "generateFallbackStudyPlan env data = Inr r"
    and len: "length (studyPlan r) = 5"
    and days: "\<And>i. i < 5 \<Longrightarrow> studyPlanDay (now env) data (planSubjects env data)
                 (dayInfo (Day (now env + tza env) + int i)) i = Inr (studyPlan r ! i)"
    using fallback_days [of env data] by blast
  have ne: "planSubjects env data \<noteq> []"
    by (simp add: planSubjects_def availableSubjects_of_nonempty)
  have "hours d \<le> dailyHours data" if "d \<in> set (studyPlan r)" for d
  proof -
    from that obtain i where i: "i < 5" and d: "d = studyPlan r ! i"
      by (auto simp: in_set_conv_nth len)
    show ?thesis
    proof (cases "isMultiSubjectDay i (planSubjects env data)")
      case True
      from studyPlanDay_multi(2) [OF ne True days [OF i]] show ?thesis
        by (simp add: d)
    next
      case False
      have "hours d = real_of_int \<lceil>real_of_int n * (if priority d = High then 0.8 else 0.5)\<rceil>"
        using studyPlanDay_single(3) [OF ne False days [OF i]] by (simp add: d assms(1))
      also have "\<dots> \<le> real_of_int n"
        by (rule ceiling_fraction_le) (simp_all add: assms(2))
      finally show ?thesis by (simp add: assms(1))
    qed
  qed
  with r show ?thesis by blast
qed

theorem fallback_hours_within_budget_witness:
  "dailyHours three_subjects = real_of_int 4 \<and> (0::int) < 4
   \<and> (\<exists>r. generateFallbackStudyPlan env0 three_subjects = Inr r
          \<and> (\<forall>d \<in> set (studyPlan r). hours d \<le> 4))"
proof -
  have h: "dailyHours three_subjects = real_of_int 4"
    by (simp add: three_subjects_def)
  have p: "(0::int) < 4"
    by simp
  from fallback_hours_within_budget [OF h p, of env0] h show ?thesis
    by simp
qed

text \<open>
  Claim C5. For every amount of daily hours, a multi-subject day of the fallback plan has
  the full daily hours, and a single-subject day has the daily hours times 0.8, rounded
  up, when its priority is high, and the daily hours times 0.5, rounded up, otherwise.
\<close>

theorem fallback_hours_rule:
  "\<exists>r. generateFallbackStudyPlan env data = Inr r
     \<and> (\<forall>i<5. hours (studyPlan r ! i) =
           (if isMultiSubjectDay i (planSubjects env data) then dailyHours data
            else if priority (studyPlan r ! i) = High
              then real_of_int \<lceil>dailyHours data * 0.8\<rceil>
              else real_of_int \<lceil>dailyHours data * 0.5\<rceil>))"
proof -
  obtain r where r: "generateFallbackStudyPlan env data = Inr r"
    and days: "\<And>i. i < 5 \<Longrightarrow> studyPlanDay (now env) data (planSubjects env data)
                 (dayInfo (Day (now env + tza env) + int i)) i = Inr (studyPlan r ! i)"
    using fallback_days [of env data] by blast
  have ne: "planSubjects env data \<noteq> []"
    by (simp add: planSubjects_def availableSubjects_of_nonempty)
  have "hours (studyPlan r ! i) =
           (if isMultiSubjectDay i (planSubjects env data) then dailyHours data
            else if priority (studyPlan r ! i) = High
              then real_of_int \<lceil>dailyHours data * 0.8\<rceil>
              else real_of_int \<lceil>dailyHours data * 0.5\<rceil>)" if i: "i < 5" for i
  proof (cases "isMultiSubjectDay i (planSubjects env data)")
    case True
    from studyPlanDay_multi(2) [OF ne True days [OF i]] True show ?thesis by simp
  next
    case False
    from studyPlanDay_single(3) [OF ne False days [OF i]] False show ?thesis by simp
  qed
  with r show ?thesis by blast
qed

theorem fallback_hours_rule_witness:
  "isMultiSubjectDay 0 (planSubjects env0 three_subjects)
   \<and> \<not> isMultiSubjectDay 1 (planSubjects env0 three_subjects)
   \<and> (\<exists>r. generateFallbackStudyPlan env0 three_subjects = Inr r
          \<and> hours (studyPlan r ! 0) = 4
          \<and> hours (studyPlan r ! 1) = (if priority (studyPlan r ! 1) = High then 4 else 2))"
proof -
  have m0: "isMultiSubjectDay 0 (planSubjects env0 three_subjects)"
    by (simp add: isMultiSubjectDay_def planSubjects_three)
  have m1: "\<not> isMultiSubjectDay 1 (planSubjects env0 three_subjects)"
    by (simp add: isMultiSubjectDay_def)
  have h: "dailyHours three_subjects = 4"
    by (simp add: three_subjects_def)
  have c: "\<lceil>(4::real) * 0.8\<rceil> = 4" "\<lceil>(4::real) * 0.5\<rceil> = 2"
    by simp_all
  obtain r where r: "generateFallbackStudyPlan env0 three_subjects = Inr r"
    and rule: "\<And>i. i < 5 \<Longrightarrow> hours (studyPlan r ! i) =
           (if isMultiSubjectDay i (planSubjects env0 three_subjects)
            then dailyHours three_subjects
            else if priority (studyPlan r ! i) = High
              then real_of_int \<lceil>dailyHours three_subjects * 0.8\<rceil>
              else real_of_int \<lceil>dailyHours three_subjects * 0.5\<rceil>)"
    using fallback_hours_rule [of env0 three_subjects] by blast
  have "hours (studyPlan r ! 0) = 4"
    using rule [of 0] m0 h by simp
  moreover have "hours (studyPlan r ! 1) = (if priority (studyPlan r ! 1) = High then 4 else 2)"
    using rule [of 1] m1 h c by simp
  ultimately show ?thesis
    using r m0 m1 by blast
qed



text \<open>
  Claim C8. The day of index \<open>i < 5\<close> of the fallback plan is a multi-subject day exactly
  when \<open>i\<close> is even and at least two subjects are available. With \<open>n\<close> subjects
  available, a multi-subject day has the names of the subjects at the positions
  \<open>i mod n\<close> and \<open>(i + 1) mod n\<close>, joined by a comma and a blank, and every other day has
  the name of the subject at position \<open>i mod n\<close>. The available subjects are the sorted
  subject list when the form has a subject.
\<close>

theorem fallback_day_subjects:
  "\<exists>r. generateFallbackStudyPlan env data = Inr r
     \<and> (subjects data \<noteq> [] \<longrightarrow>
          planSubjects env data = sortSubjects (now env) (subjects data))
     \<and> (\<forall>i<5.
          (isMultiSubjectDay i (planSubjects env data)
             \<longleftrightarrow> even i \<and> 2 \<le> length (planSubjects env data))
          \<and> subject (studyPlan r ! i) =
              (if even i \<and> 2 \<le> length (planSubjects env data)
               then name (planSubjects env data ! (i mod length (planSubjects env data)))
                    @ '', ''
                    @ name (planSubjects env data ! ((i + 1) mod length (planSubjects env data)))
               else name (planSubjects env data ! (i mod length (planSubjects env data)))))"
proof -
  obtain r where r: "generateFallbackStudyPlan env data = Inr r"
    and days: "\<And>i. i < 5 \<Longrightarrow> studyPlanDay (now env) data (planSubjects env data)
                 (dayInfo (Day (now env + tza env) + int i)) i = Inr (studyPlan r ! i)"
    using fallback_days [of env data] by blast
  have ne: "planSubjects env data \<noteq> []"
    by (simp add: planSubjects_def availableSubjects_of_nonempty)
  have sorted_list: "planSubjects env data = sortSubjects (now env) (subjects data)"
    if "subjects data \<noteq> []"
    using that length_sortSubjects [of "now env" "subjects data"]
    by (simp add: planSubjects_def availableSubjects_of_def)
  have multi: "isMultiSubjectDay i (planSubjects env data)
             \<longleftrightarrow> even i \<and> 2 \<le> length (planSubjects env data)" for i
    by (auto simp: isMultiSubjectDay_def even_iff_mod_2_eq_zero)
  have "subject (studyPlan r ! i) =
              (if even i \<and> 2 \<le> length (planSubjects env data)
               then name (planSubjects env data ! (i mod length (planSubjects env data)))
                    @ '', ''
                    @ name (planSubjects env data ! ((i + 1) mod length (planSubjects env data)))
               else name (planSubjects env data ! (i mod length (planSubjects env data))))"
    if i: "i < 5" for i
  proof (cases "isMultiSubjectDay i (planSubjects env data)")
    case True
    from studyPlanDay_multi(1) [OF ne True days [OF i]] True show ?thesis
      by (simp add: multi)
  next
    case False
    from studyPlanDay_single(1) [OF ne False days [OF i]] False show ?thesis
      by (simp add: multi)
  qed
  with r multi sorted_list show ?thesis by blast
qed

theorem fallback_day_subjects_witness:
  "subjects three_subjects \<noteq> []
   \<and> (\<exists>r. generateFallbackStudyPlan env0 three_subjects = Inr r
          \<and> subject (studyPlan r ! 0) = ''Math, Art''
          \<and> subject (studyPlan r ! 1) = ''Art''
          \<and> subject (studyPlan r ! 2) = ''Essay, Math'')"
proof -
  have ne: "subjects three_subjects \<noteq> []"
    by (simp add: three_subjects_def)
  obtain r where r: "generateFallbackStudyPlan env0 three_subjects = Inr r"
    and rule: "\<And>i. i < 5 \<Longrightarrow> subject (studyPlan r ! i) =
              (if even i \<and> 2 \<le> length (planSubjects env0 three_subjects)
               then name (planSubjects env0 three_subjects
                            ! (i mod length (planSubjects env0 three_subjects)))
                    @ '', ''
                    @ name (planSubjects env0 three_subjects
                            ! ((i + 1) mod length (planSubjects env0 three_subjects)))
               else name (planSubjects env0 three_subjects
                            ! (i mod length (planSubjects env0 three_subjects))))"
    using fallback_day_subjects [of env0 three_subjects] by blast
  have "subject (studyPlan r ! 0) = ''Math, Art''"
    using rule [of 0] by (simp add: planSubjects_three)
  moreover have "subject (studyPlan r ! 1) = ''Art''"
    using rule [of 1] by (simp add: planSubjects_three)
  moreover have "subject (studyPlan r ! 2) = ''Essay, Math''"
    using rule [of 2] by (simp add: planSubjects_three)
  ultimately show ?thesis
    using r ne by blast
qed

text \<open>
  Claim C10. For the empty subject list the planner works on the placeholder
  ``General Study'' with the clock's time as its deadline, and each of the five days is a
  single-subject day for it, with priority high, the daily hours times 0.8, rounded up,
  and the general notes, which on the day of index 4 end with the assessment suffix.
\<close>

theorem fallback_empty_subjects:
  assumes "subjects data = []"
  shows "\<exists>r. generateFallbackStudyPlan env data = Inr r
     \<and> planSubjects env data
         = [\<lparr>id_s = ''1'', name = ''General Study'', deadline = Some (now env)\<rparr>]
     \<and> (\<forall>i<5. \<not> isMultiSubjectDay i (planSubjects env data)
          \<and> subject (studyPlan r ! i) = ''General Study''
          \<and> priority (studyPlan r ! i) = High
          \<and> hours (studyPlan r ! i) = real_of_int \<lceil>dailyHours data * 0.8\<rceil>
          \<and> notes_s (studyPlan r ! i) =
              ''Review course materials using the Feynman technique, create summary notes with mind maps, and practice retrieval with self-quizzing''
              @ (if i = 4 then '' - prepare for assessment'' else []))"
proof -
  obtain r where r: "generateFallbackStudyPlan env data = Inr r"
    and days: "\<And>i. i < 5 \<Longrightarrow> studyPlanDay (now env) data (planSubjects env data)
                 (dayInfo (Day (now env + tza env) + int i)) i = Inr (studyPlan r ! i)"
    using fallback_days [of env data] by blast
  have ps: "planSubjects env data
            = [\<lparr>id_s = ''1'', name = ''General Study'', deadline = Some (now env)\<rparr>]"
    by (simp add: planSubjects_def assms sortSubjects_Nil availableSubjects_of_def)
  have ne: "planSubjects env data \<noteq> []"
    by (simp add: ps)
  have single: "\<not> isMultiSubjectDay i (planSubjects env data)" for i
    by (simp add: ps isMultiSubjectDay_def)
  have high: "getPriorityByDeadline (now env)
      \<lparr>id_s = ''1'', name = ''General Study'', deadline = Some (now env)\<rparr> = High"
    by (simp add: getPriorityByDeadline_def getDaysUntilDeadline_def)
  have "subject (studyPlan r ! i) = ''General Study''
          \<and> priority (studyPlan r ! i) = High
          \<and> hours (studyPlan r ! i) = real_of_int \<lceil>dailyHours data * 0.8\<rceil>
          \<and> notes_s (studyPlan r ! i) =
              ''Review course materials using the Feynman technique, create summary notes with mind maps, and practice retrieval with self-quizzing''
              @ (if i = 4 then '' - prepare for assessment'' else [])" if i: "i < 5" for i
  proof -
    note f = studyPlanDay_single [OF ne single days [OF i]]
    have p: "priority (studyPlan r ! i) = High"
      using f(2) by (simp add: ps high)
    have n: "notes_s (studyPlan r ! i) = getSubjectNotes ''General Study'' @ assessmentSuffix i"
      using f(4) by (simp add: ps)
    show ?thesis
      using f(1) f(3) p n
      by (simp add: ps general_study_notes assessmentSuffix_def del: append.simps)
  qed
  with r ps single show ?thesis by blast
qed

theorem fallback_empty_subjects_witness:
  "subjects no_subjects = []
   \<and> (\<exists>r. generateFallbackStudyPlan env0 no_subjects = Inr r
          \<and> subject (studyPlan r ! 4) = ''General Study''
          \<and> priority (studyPlan r ! 4) = High
          \<and> hours (studyPlan r ! 4) = 3
          \<and> notes_s (studyPlan r ! 4) =
              ''Review course materials using the Feynman technique, create summary notes with mind maps, and practice retrieval with self-quizzing - prepare for assessment'')"
proof -
  have e: "subjects no_subjects = []"
    by (simp add: no_subjects_def)
  have c: "\<lceil>dailyHours no_subjects * 0.8\<rceil> = 3"
    by (simp add: no_subjects_def)
  obtain r where r: "generateFallbackStudyPlan env0 no_subjects = Inr r"
    and rule: "\<And>i. i < 5 \<Longrightarrow> subject (studyPlan r ! i) = ''General Study''
          \<and> priority (studyPlan r ! i) = High
          \<and> hours (studyPlan r ! i) = real_of_int \<lceil>dailyHours no_subjects * 0.8\<rceil>
          \<and> notes_s (studyPlan r ! i) =
              ''Review course materials using the Feynman technique, create summary notes with mind maps, and practice retrieval with self-quizzing''
              @ (if i = 4 then '' - prepare for assessment'' else [])"
    using fallback_empty_subjects [OF e, of env0] by blast
  from rule [of 4] c r e show ?thesis
    by simp
qed

section \<open>Properties of generateStudyPlan\<close>

lemma elem_at_nextFiveDays_0: "elem_at (getNextFiveDays t) 0 = Inr (dayInfo t)"
  using nth_getNextFiveDays [of 0 t] by (simp add: elem_at_def length_getNextFiveDays)

lemma generateStudyPlan_try_unfold:
  "generateStudyPlan_try env host data =
     (case axios_post host (payload_text env host data) of
        Inl e \<Rightarrow> Inl e
      | Inr response \<Rightarrow>
          (case generatedText_of response of
             None \<Rightarrow> Inl (Error ''No response from Gemini API'')
           | Some t \<Rightarrow>
               if t = [] then Inl (Error ''No response from Gemini API'')
               else (case jsonMatch t of
                       None \<Rightarrow> Inl (Error ''Could not parse JSON from Gemini response'')
                     | Some m \<Rightarrow>
                         (case JSON_parse host m of
                            None \<Rightarrow> Inl SyntaxError
                          | Some v \<Rightarrow> Inr v))))"
  by (simp add: generateStudyPlan_try_def elem_at_nextFiveDays_0 chat_completions_create_def
        generateContent_def payload_text_def Let_def
      split: sum.splits option.splits)

lemma jsonMatch_no_brace:
  assumes "CHR ''{'' \<notin> set t \<or> CHR ''}'' \<notin> set t"
  shows "jsonMatch t = None"
proof (cases "dropWhile (\<lambda>c. c \<noteq> CHR ''{'') t")
  case Nil
  show ?thesis unfolding jsonMatch_def Nil by simp
next
  case (Cons b rest)
  have "set (dropWhile (\<lambda>c. c \<noteq> CHR ''{'') t) \<subseteq> set t"
    by (auto dest: set_dropWhileD)
  then have sub: "b \<in> set t" "set rest \<subseteq> set t"
    by (simp_all add: Cons)
  have "b = CHR ''{''"
    using hd_dropWhile [of "\<lambda>c. c \<noteq> CHR ''{''" t] by (simp add: Cons)
  with sub assms have "CHR ''}'' \<notin> set rest"
    by auto
  then show ?thesis
    unfolding jsonMatch_def Cons by simp
qed

lemma jsonMatch_embedded:
  assumes "CHR ''{'' \<notin> set pre" and "CHR ''}'' \<notin> set post"
  shows "jsonMatch (pre @ CHR ''{'' # mid @ [CHR ''}''] @ post) = Some (CHR ''{'' # mid @ [CHR ''}''])"
proof -
  have p1: "\<And>x. x \<in> set pre \<Longrightarrow> x \<noteq> CHR ''{''"
    using assms(1) by auto
  have p2: "\<And>x. x \<in> set (rev post) \<Longrightarrow> x \<noteq> CHR ''}''"
    using assms(2) by auto
  have 1: "dropWhile (\<lambda>c. c \<noteq> CHR ''{'') (pre @ CHR ''{'' # mid @ [CHR ''}''] @ post)
      = CHR ''{'' # mid @ [CHR ''}''] @ post"
    using p1 by (simp add: dropWhile_append3)
  have "dropWhile (\<lambda>c. c \<noteq> CHR ''}'') (rev post @ CHR ''}'' # rev mid)
      = CHR ''}'' # rev mid"
    using p2 by (simp add: dropWhile_append3)
  then have 2: "dropWhile (\<lambda>c. c \<noteq> CHR ''}'') (rev (mid @ [CHR ''}''] @ post))
      = CHR ''}'' # rev mid"
    by simp
  show ?thesis
    unfolding jsonMatch_def 1 using 2 by simp
qed

lemma generateStudyPlan_caught:
  assumes "generateStudyPlan_try env host data = Inl e"
  shows "\<exists>r. generateFallbackStudyPlan env data = Inr r
           \<and> generateStudyPlan env host data = Inr (Fallback r)"
  using assms fallback_returns [of env data] by (auto simp: generateStudyPlan_def)

lemma good_text_parts:
  "CHR ''{'' \<notin> set ''Here is your plan: ''" "CHR ''}'' \<notin> set '' Good luck!''"
  by simp_all

text \<open>
  Claim C1, as amended. \<^verbatim>\<open>generateStudyPlan\<close> always returns a value and never throws:
  the plan of the fallback planner or the value \<^verbatim>\<open>JSON.parse\<close> returned, which is cast
  and not checked to be a \<^verbatim>\<open>StudyPlanResult\<close>. It returns the plan of the fallback
  planner whenever the request is rejected, the response has no text or an empty one, the
  text lacks an opening or a closing brace, or \<^verbatim>\<open>JSON.parse\<close> throws on the matched text.
\<close>

theorem generateStudyPlan_never_throws:
  "\<exists>r. generateFallbackStudyPlan env data = Inr r
     \<and> (generateStudyPlan env host data = Inr (Fallback r)
          \<or> (\<exists>v. generateStudyPlan env host data = Inr (Parsed v)))
     \<and> ((\<exists>e. axios_post host (payload_text env host data) = Inl e)
          \<longrightarrow> generateStudyPlan env host data = Inr (Fallback r))
     \<and> (\<forall>response. axios_post host (payload_text env host data) = Inr response
          \<longrightarrow> (generatedText_of response = None \<or> generatedText_of response = Some []
                \<longrightarrow> generateStudyPlan env host data = Inr (Fallback r))
            \<and> (\<forall>t. generatedText_of response = Some t
                  \<and> (CHR ''{'' \<notin> set t \<or> CHR ''}'' \<notin> set t)
                  \<longrightarrow> generateStudyPlan env host data = Inr (Fallback r))
            \<and> (\<forall>t m. generatedText_of response = Some t \<and> jsonMatch t = Some m
                  \<and> JSON_parse host m = None
                  \<longrightarrow> generateStudyPlan env host data = Inr (Fallback r)))"
proof -
  obtain r where r: "generateFallbackStudyPlan env data = Inr r"
    using fallback_returns by blast
  have caught: "generateStudyPlan env host data = Inr (Fallback r)"
    if "generateStudyPlan_try env host data = Inl e" for e
    using that by (simp add: generateStudyPlan_def r)
  have total: "generateStudyPlan env host data = Inr (Fallback r)
          \<or> (\<exists>v. generateStudyPlan env host data = Inr (Parsed v))"
    by (cases "generateStudyPlan_try env host data") (simp_all add: generateStudyPlan_def r)
  have remote: "generateStudyPlan env host data = Inr (Fallback r)"
    if "axios_post host (payload_text env host data) = Inl e" for e
    by (rule caught [of e]) (simp add: generateStudyPlan_try_unfold that)
  have empty: "generateStudyPlan env host data = Inr (Fallback r)"
    if "axios_post host (payload_text env host data) = Inr response"
      and "generatedText_of response = None \<or> generatedText_of response = Some []"
    for response
    by (rule caught [of "Error ''No response from Gemini API''"])
      (use that in \<open>auto simp: generateStudyPlan_try_unfold\<close>)
  have braces: "generateStudyPlan env host data = Inr (Fallback r)"
    if "axios_post host (payload_text env host data) = Inr response"
      and "generatedText_of response = Some t"
      and "CHR ''{'' \<notin> set t \<or> CHR ''}'' \<notin> set t"
    for response t
  proof (cases "t = []")
    case True
    show ?thesis using empty [OF that(1)] that(2) True by simp
  next
    case False
    show ?thesis
      by (rule caught [of "Error ''Could not parse JSON from Gemini response''"])
        (simp add: generateStudyPlan_try_unfold that(1,2) False
           jsonMatch_no_brace [OF that(3)])
  qed
  have parse: "generateStudyPlan env host data = Inr (Fallback r)"
    if "axios_post host (payload_text env host data) = Inr response"
      and "generatedText_of response = Some t" and "jsonMatch t = Some m"
      and "JSON_parse host m = None"
    for response t m
  proof (cases "t = []")
    case True
    show ?thesis using empty [OF that(1)] that(2) True by simp
  next
    case False
    show ?thesis
      by (rule caught [of SyntaxError])
        (simp add: generateStudyPlan_try_unfold that False)
  qed
  from r total remote empty braces parse show ?thesis
    by blast
qed

theorem generateStudyPlan_never_throws_witness:
  "axios_post failing_host (payload_text env0 failing_host no_subjects)
     = Inl (RequestError ''Network Error'')
   \<and> (\<exists>r. generateFallbackStudyPlan env0 no_subjects = Inr r
          \<and> generateStudyPlan env0 failing_host no_subjects = Inr (Fallback r))"
proof -
  have p: "axios_post failing_host (payload_text env0 failing_host no_subjects)
     = Inl (RequestError ''Network Error'')"
    by (simp add: failing_host_def host_of_def)
  with generateStudyPlan_never_throws [of env0 no_subjects failing_host] show ?thesis
    by blast
qed

theorem generateStudyPlan_unchecked_value_counterexample:
  "axios_post empty_object_host (payload_text env0 empty_object_host no_subjects)
     = Inr (response_with ''{}'')
   \<and> generatedText_of (response_with ''{}'') = Some ''{}''
   \<and> JSON_parse empty_object_host ''{}'' = Some (JObject [])
   \<and> generateStudyPlan env0 empty_object_host no_subjects = Inr (Parsed (JObject []))
   \<and> \<not> is_StudyPlanResult (JObject [])"
proof -
  have p: "axios_post empty_object_host (payload_text env0 empty_object_host no_subjects)
     = Inr (response_with ''{}'')"
    by (simp add: empty_object_host_def host_of_def)
  have t: "generatedText_of (response_with ''{}'') = Some ''{}''"
    by (simp add: generatedText_of_def response_with_def)
  have j: "JSON_parse empty_object_host ''{}'' = Some (JObject [])"
    by (simp add: empty_object_host_def host_of_def parse_only_def)
  have m: "jsonMatch ''{}'' = Some ''{}''"
    by (simp add: jsonMatch_def)
  have "generateStudyPlan_try env0 empty_object_host no_subjects = Inr (JObject [])"
    using p t m j by (simp add: generateStudyPlan_try_unfold)
  then have "generateStudyPlan env0 empty_object_host no_subjects = Inr (Parsed (JObject []))"
    by (simp add: generateStudyPlan_def)
  moreover have "\<not> is_StudyPlanResult (JObject [])"
    by (simp add: is_StudyPlanResult_def is_string_def)
  ultimately show ?thesis
    using p t j by blast
qed

text \<open>
  Claim C2, as amended. The \<^verbatim>\<open>try\<close> block of \<^verbatim>\<open>generateStudyPlan\<close> throws when the request
  is rejected, the response has no text, the text has no match of the brace pattern, or
  \<^verbatim>\<open>JSON.parse\<close> throws; every such throw is caught inside \<^verbatim>\<open>generateStudyPlan\<close>, which
  then returns the plan of the fallback planner, so nothing propagates to the caller; and
  a value that \<^verbatim>\<open>JSON.parse\<close> returns is handed to the caller as it is.
\<close>

theorem generateStudyPlan_try_throws_and_is_caught:
  "(generateStudyPlan_try env host data =
      (case axios_post host (payload_text env host data) of
         Inl e \<Rightarrow> Inl e
       | Inr response \<Rightarrow>
           (case generatedText_of response of
              None \<Rightarrow> Inl (Error ''No response from Gemini API'')
            | Some t \<Rightarrow>
                if t = [] then Inl (Error ''No response from Gemini API'')
                else (case jsonMatch t of
                        None \<Rightarrow> Inl (Error ''Could not parse JSON from Gemini response'')
                      | Some m \<Rightarrow>
                          (case JSON_parse host m of
                             None \<Rightarrow> Inl SyntaxError
                           | Some v \<Rightarrow> Inr v)))))
   \<and> (\<forall>e. generateStudyPlan_try env host data = Inl e \<longrightarrow>
         (\<exists>r. generateFallbackStudyPlan env data = Inr r
              \<and> generateStudyPlan env host data = Inr (Fallback r)))
   \<and> (\<forall>v. generateStudyPlan_try env host data = Inr v \<longrightarrow>
         generateStudyPlan env host data = Inr (Parsed v))"
proof -
  obtain r where r: "generateFallbackStudyPlan env data = Inr r"
    using fallback_returns by blast
  have "generateStudyPlan env host data = Inr (Fallback r)"
    if "generateStudyPlan_try env host data = Inl e" for e
    using that by (simp add: generateStudyPlan_def r)
  moreover have "generateStudyPlan env host data = Inr (Parsed v)"
    if "generateStudyPlan_try env host data = Inr v" for v
    using that by (simp add: generateStudyPlan_def)
  ultimately show ?thesis
    using r generateStudyPlan_try_unfold [of env host data] by blast
qed

theorem generateStudyPlan_try_throws_and_is_caught_witness:
  "generateStudyPlan_try env0 failing_host no_subjects = Inl (RequestError ''Network Error'')
   \<and> (\<exists>r. generateFallbackStudyPlan env0 no_subjects = Inr r
          \<and> generateStudyPlan env0 failing_host no_subjects = Inr (Fallback r))"
proof -
  have p: "axios_post failing_host (payload_text env0 failing_host no_subjects)
     = Inl (RequestError ''Network Error'')"
    by (simp add: failing_host_def host_of_def)
  note inst = generateStudyPlan_try_throws_and_is_caught [of env0 failing_host no_subjects]
  have t: "generateStudyPlan_try env0 failing_host no_subjects
     = Inl (RequestError ''Network Error'')"
    using inst p by simp
  with inst show ?thesis
    by blast
qed

theorem generateStudyPlan_rejects_counterexample:
  "axios_post failing_host (payload_text env0 failing_host no_subjects)
     = Inl (RequestError ''Network Error'')
   \<and> \<not> isl (generateStudyPlan env0 failing_host no_subjects)"
proof -
  have p: "axios_post failing_host (payload_text env0 failing_host no_subjects)
     = Inl (RequestError ''Network Error'')"
    by (simp add: failing_host_def host_of_def)
  then have "generateStudyPlan_try env0 failing_host no_subjects
     = Inl (RequestError ''Network Error'')"
    by (simp add: generateStudyPlan_try_unfold)
  from generateStudyPlan_caught [OF this] p show ?thesis
    by auto
qed

text \<open>
  Claim C9, as amended. When the response text is a brace-delimited object that
  \<^verbatim>\<open>JSON.parse\<close> accepts, with prose before it that has no opening brace and prose behind
  it that has no closing brace, the match is exactly the object and \<^verbatim>\<open>generateStudyPlan\<close>
  returns its parsed value.
\<close>

theorem generateStudyPlan_embedded_object:
  assumes "axios_post host (payload_text env host data) = Inr response"
    and "generatedText_of response = Some (pre @ CHR ''{'' # mid @ [CHR ''}''] @ post)"
    and "CHR ''{'' \<notin> set pre" and "CHR ''}'' \<notin> set post"
    and "JSON_parse host (CHR ''{'' # mid @ [CHR ''}'']) = Some v"
  shows "jsonMatch (pre @ CHR ''{'' # mid @ [CHR ''}''] @ post) = Some (CHR ''{'' # mid @ [CHR ''}''])
    \<and> generateStudyPlan env host data = Inr (Parsed v)"
proof -
  have m: "jsonMatch (pre @ CHR ''{'' # mid @ [CHR ''}''] @ post) = Some (CHR ''{'' # mid @ [CHR ''}''])"
    using assms(3,4) by (rule jsonMatch_embedded)
  have "generateStudyPlan_try env host data = Inr v"
    using assms(1,2,5) m by (simp add: generateStudyPlan_try_unfold)
  then have "generateStudyPlan env host data = Inr (Parsed v)"
    by (simp add: generateStudyPlan_def)
  with m show ?thesis
    by (rule conjI)
qed

theorem generateStudyPlan_embedded_object_witness:
  "axios_post clean_host (payload_text env0 clean_host no_subjects)
     = Inr (response_with (''Here is your plan: '' @ good_text @ '' Good luck!''))
   \<and> JSON_parse clean_host good_text = Some good_value
   \<and> jsonMatch (''Here is your plan: '' @ good_text @ '' Good luck!'') = Some good_text
   \<and> generateStudyPlan env0 clean_host no_subjects = Inr (Parsed good_value)"
proof -
  have p: "axios_post clean_host (payload_text env0 clean_host no_subjects)
     = Inr (response_with (''Here is your plan: '' @ good_text @ '' Good luck!''))"
    by (simp add: clean_host_def host_of_def)
  have t: "generatedText_of (response_with (''Here is your plan: '' @ good_text @ '' Good luck!''))
     = Some (''Here is your plan: '' @ CHR ''{'' # mid_text @ [CHR ''}''] @ '' Good luck!'')"
    by (simp add: generatedText_of_def response_with_def good_text_def)
  have j: "JSON_parse clean_host (CHR ''{'' # mid_text @ [CHR ''}'']) = Some good_value"
    by (simp add: clean_host_def host_of_def parse_only_def good_text_def)
  from generateStudyPlan_embedded_object [OF p t good_text_parts j] p j show ?thesis
    by (simp add: good_text_def)
qed

theorem generateStudyPlan_prose_with_braces_counterexample:
  "axios_post braces_host (payload_text env0 braces_host no_subjects)
     = Inr (response_with (''Plan {draft}: '' @ good_text @ '' Good luck!''))
   \<and> JSON_parse braces_host good_text = Some good_value
   \<and> jsonMatch (''Plan {draft}: '' @ good_text @ '' Good luck!'')
       = Some (''{draft}: '' @ good_text)
   \<and> generateStudyPlan env0 braces_host no_subjects \<noteq> Inr (Parsed good_value)"
proof -
  have p: "axios_post braces_host (payload_text env0 braces_host no_subjects)
     = Inr (response_with (''Plan {draft}: '' @ good_text @ '' Good luck!''))"
    by (simp add: braces_host_def host_of_def)
  have t: "generatedText_of (response_with (''Plan {draft}: '' @ good_text @ '' Good luck!''))
     = Some (''Plan {draft}: '' @ good_text @ '' Good luck!'')"
    by (simp add: generatedText_of_def response_with_def)
  have g: "JSON_parse braces_host good_text = Some good_value"
    by (simp add: braces_host_def host_of_def parse_only_def)
  have m: "jsonMatch (''Plan {draft}: '' @ good_text @ '' Good luck!'')
       = Some (''{draft}: '' @ good_text)"
    by (simp add: jsonMatch_def good_text_def mid_text_def dq_def)
  have b: "JSON_parse braces_host (''{draft}: '' @ good_text) = None"
    by (simp add: braces_host_def host_of_def parse_only_def good_text_def)
  have "generateStudyPlan_try env0 braces_host no_subjects = Inl SyntaxError"
    using p t m b by (simp add: generateStudyPlan_try_unfold)
  from generateStudyPlan_caught [OF this] p g m show ?thesis
    by auto
qed

end
